theory Spec2Isabelle
  imports Complex_Main
begin

section \<open>Data model\<close>

text \<open>
  The adaptive measurement engine of the repository works on Python floats and unbounded
  integers. Response categories and counters are \<^typ>\<open>int\<close>. A finite float is the real
  number it denotes. Where nothing else is said, float arithmetic is read as the real arithmetic
  it approximates (\<open>math.exp\<close> is \<^const>\<open>exp\<close>, \<open>math.log\<close> is \<^const>\<open>ln\<close>), and
  the two overflow guards of the logistic function are kept as the case distinctions the code
  writes. Two effects of the float format are modelled where a statement depends on them: the
  rounding of the additions in \<open>update_theta\<close>, and results too large for a float.

  \<open>PersonalityItem\<close> is the dataclass of \<open>irt_cat_engine.py\<close>. The dictionary items that
  \<open>pure_python_irt.py\<close> receives are read through the keys \<open>item_id\<close>,
  \<open>discrimination\<close> and \<open>difficulty_thresholds\<close> only, so the same record serves for them.
\<close>

record PersonalityItem =
  item_id :: string
  dimension :: string
  text_de :: string
  text_en :: string
  discrimination :: real
  difficulty_thresholds :: "real list"

text \<open>
  The item invariant of the data model: discrimination strictly positive, thresholds strictly
  increasing, and four thresholds for the five-point scale.
\<close>

definition well_formed_item :: "PersonalityItem \<Rightarrow> bool" where
  "well_formed_item item \<longleftrightarrow>
     0 < discrimination item \<and>
     sorted_wrt (<) (difficulty_thresholds item) \<and>
     length (difficulty_thresholds item) = 4"

text \<open>The exceptions of Python that the modelled functions raise or catch.\<close>

datatype error = IndexError | OverflowError | KeyError

subsection \<open>Python floats\<close>

text \<open>
  A Python float is an IEEE 754 binary64 number: 53 significant bits, exponents from -1022,
  results rounded to the nearest float and ties to the even significand. \<open>binary64 x\<close> is the
  float nearest to the real \<open>x\<close>; the upper end of the format is not part of it, and
  \<open>float_overflow x\<close> says that \<open>x\<close> lies at or beyond the point from which rounding gives
  an infinity. A float literal of the code denotes the float nearest to its decimal value.
\<close>

definition round_half_even :: "real \<Rightarrow> int" where
  "round_half_even r =
     (let f = \<lfloor>r\<rfloor>; d = r - of_int f in
      if d < 1 / 2 then f
      else if 1 / 2 < d then f + 1
      else if even f then f else f + 1)"

definition binary64 :: "real \<Rightarrow> real" where
  "binary64 x =
     (if x = 0 then 0
      else
        (let e = max \<lfloor>log 2 \<bar>x\<bar>\<rfloor> (- 1022);
             ulp = 2 powr (of_int e - 52)
         in of_int (round_half_even (x / ulp)) * ulp))"

definition float_overflow :: "real \<Rightarrow> bool" where
  "float_overflow x \<longleftrightarrow> 2 ^ 1024 - 2 ^ 970 \<le> \<bar>x\<bar>"

text \<open>Float addition, subtraction and multiplication of two floats whose result is finite.\<close>

definition float_add :: "real \<Rightarrow> real \<Rightarrow> real" where
  "float_add x y = binary64 (x + y)"

definition float_sub :: "real \<Rightarrow> real \<Rightarrow> real" where
  "float_sub x y = binary64 (x - y)"

definition float_mul :: "real \<Rightarrow> real \<Rightarrow> real" where
  "float_mul x y = binary64 (x * y)"

section \<open>\<open>irt_cat_engine.py\<close>: class \<open>IRTCATEngine\<close>\<close>

text \<open>The body of the loop that fills \<open>cumulative_probs\<close> in \<open>grm_probability\<close>.\<close>

definition cat_cumulative_term :: "real \<Rightarrow> real \<Rightarrow> real \<Rightarrow> real" where
  "cat_cumulative_term a theta b =
     (let exp_val = a * (theta - b) in
      if exp_val > 500 then 1
      else if exp_val < - 500 then 0
      else 1 / (1 + exp (- exp_val)))"

definition cat_cumulative_probs :: "real \<Rightarrow> PersonalityItem \<Rightarrow> real list" where
  "cat_cumulative_probs theta item =
     [0] @ map (cat_cumulative_term (discrimination item) theta) (difficulty_thresholds item) @ [1]"

text \<open>\<open>IRTCATEngine.grm_probability\<close>.\<close>

definition cat_grm_probability :: "real \<Rightarrow> PersonalityItem \<Rightarrow> int \<Rightarrow> real" where
  "cat_grm_probability theta item response =
     (let cumulative_probs = cat_cumulative_probs theta item;
          response_index = response - 1 in
      if response_index < 0 \<or> response_index \<ge> int (length cumulative_probs) - 1 then 0.001
      else max (cumulative_probs ! nat (response_index + 1) - cumulative_probs ! nat response_index)
               0.001)"

text \<open>
  \<open>IRTCATEngine.fisher_information\<close>: the exponent of one threshold, the loop body, which
  adds one term per threshold and none when the exponent is out of range, and the function.
  The exponent is the float product of the float difference, so that the range test is the one
  the code makes. The product \<open>a * a\<close> and the running sum are floats, and each becomes
  infinite when it is too large; the total is then infinite or not a number. \<open>None\<close> stands
  for such a total, \<open>Some\<close> for a finite one.
\<close>

definition cat_exp_val :: "real \<Rightarrow> real \<Rightarrow> real \<Rightarrow> real" where
  "cat_exp_val a theta b = float_mul a (float_sub theta b)"

definition cat_fisher_step :: "real \<Rightarrow> real \<Rightarrow> real \<Rightarrow> real option \<Rightarrow> real option" where
  "cat_fisher_step a theta b total_info =
     (let exp_val = cat_exp_val a theta b in
      if - 500 < exp_val \<and> exp_val < 500 then
        (let p = 1 / (1 + exp (- exp_val));
             info = (a * a) * p * (1 - p)
         in (case total_info of
               None \<Rightarrow> None
             | Some finite_total \<Rightarrow>
                 if float_overflow (a * a) \<or> float_overflow (finite_total + info) then None
                 else Some (finite_total + info)))
      else total_info)"

definition cat_fisher_information :: "real \<Rightarrow> PersonalityItem \<Rightarrow> real option" where
  "cat_fisher_information theta item =
     (let a = discrimination item in
      fold (cat_fisher_step a theta) (difficulty_thresholds item) (Some 0))"

text \<open>
  \<open>IRTCATEngine.update_theta\<close>: returns the pair \<open>(new_theta, se)\<close>. The local
  \<open>prob\<close> that the function computes first is never read and is left out. The sums that
  give \<open>new_theta\<close> are float operations on the float literals 0.2 and 0.1. The standard
  error of a total that is not finite is 0.0 (infinite total) or 1.0 (not a number); it is
  \<open>None\<close> here.
\<close>

definition update_theta :: "real \<Rightarrow> PersonalityItem \<Rightarrow> int \<Rightarrow> real \<times> real option" where
  "update_theta current_theta item response =
     (let new_theta =
            (if response \<ge> 4 then float_add current_theta (binary64 0.2)
             else if response \<le> 2 then float_sub current_theta (binary64 0.2)
             else float_add current_theta (float_mul (binary64 0.1) (real_of_int (response - 3))));
          new_theta = max (- 3) (min 3 new_theta);
          fisher_info = cat_fisher_information new_theta item;
          se = (case fisher_info of
                  None \<Rightarrow> None
                | Some info \<Rightarrow> Some (if info > 0 then 1 / sqrt info else 1))
      in (new_theta, se))"

section \<open>\<open>sample_items.py\<close>: the item bank\<close>

text \<open>
  The dataclass has no \<open>__post_init__\<close>: the generated constructor stores its arguments and
  cannot fail. The result type records that there is no error branch.
\<close>

definition PersonalityItem_init ::
  "string \<Rightarrow> string \<Rightarrow> string \<Rightarrow> string \<Rightarrow> real \<Rightarrow> real list \<Rightarrow> error + PersonalityItem" where
  "PersonalityItem_init iid dimn de en a bs =
     Inr \<lparr>item_id = iid, dimension = dimn, text_de = de, text_en = en,
          discrimination = a, difficulty_thresholds = bs\<rparr>"

text \<open>\<open>create_sample_item_bank\<close>; the German and English item texts are left out.\<close>

definition sample_item :: "string \<Rightarrow> string \<Rightarrow> real \<Rightarrow> real list \<Rightarrow> PersonalityItem" where
  "sample_item iid dimn a bs =
     \<lparr>item_id = iid, dimension = dimn, text_de = [], text_en = [],
      discrimination = a, difficulty_thresholds = bs\<rparr>"

definition create_sample_item_bank :: "PersonalityItem list" where
  "create_sample_item_bank =
     [sample_item ''INNOV_001'' ''innovativeness'' 1.4 [- 1.2, - 0.3, 0.4, 1.3],
      sample_item ''INNOV_002'' ''innovativeness'' 1.6 [- 0.8, 0.0, 0.8, 1.6],
      sample_item ''RISK_001'' ''risk_taking'' 1.3 [- 1.0, - 0.2, 0.6, 1.4],
      sample_item ''RISK_002'' ''risk_taking'' 1.5 [- 0.5, 0.3, 1.0, 1.8],
      sample_item ''ACHV_001'' ''achievement_orientation'' 1.2 [- 1.5, - 0.5, 0.3, 1.2],
      sample_item ''ACHV_002'' ''achievement_orientation'' 1.4 [- 0.8, 0.0, 0.8, 1.5],
      sample_item ''AUTO_001'' ''autonomy_orientation'' 1.3 [- 1.3, - 0.4, 0.4, 1.1],
      sample_item ''PROACT_001'' ''proactiveness'' 1.5 [- 0.9, - 0.1, 0.7, 1.4],
      sample_item ''LOC_001'' ''locus_of_control'' 1.1 [- 1.8, - 0.8, 0.2, 1.0],
      sample_item ''SELF_001'' ''self_efficacy'' 1.2 [- 1.4, - 0.6, 0.3, 1.3]]"

section \<open>\<open>assessment_session.py\<close>: class \<open>AssessmentSession\<close>\<close>

text \<open>
  The attributes of the session that \<open>process_response\<close> reads or writes; the engine and
  the item bank, which it does not change, are left out. The dictionary \<open>theta_estimates\<close>
  is a map from dimension names to estimates; the constructor enters 0.0 for each of the seven
  dimensions.
\<close>

record AssessmentSession =
  user_responses :: "(string \<times> int) list"
  theta_estimates :: "string \<rightharpoonup> real"
  administered_items :: "string list"

definition AssessmentSession_init :: AssessmentSession where
  "AssessmentSession_init =
     \<lparr>user_responses = [],
      theta_estimates = map_of
        [(''innovativeness'', 0), (''risk_taking'', 0), (''achievement_orientation'', 0),
         (''autonomy_orientation'', 0), (''proactiveness'', 0), (''locus_of_control'', 0),
         (''self_efficacy'', 0)],
      administered_items = []\<rparr>"

text \<open>
  \<open>AssessmentSession.process_response\<close>: looks up the estimate of the item's dimension
  (\<open>KeyError\<close> for a dimension the dictionary does not hold), updates it with
  \<open>update_theta\<close> and stores it under the same dimension.
\<close>

definition process_response ::
  "PersonalityItem \<Rightarrow> int \<Rightarrow> AssessmentSession \<Rightarrow> error + AssessmentSession" where
  "process_response item response s =
     (let s1 = s\<lparr>user_responses := user_responses s @ [(item_id item, response)],
                administered_items := administered_items s @ [item_id item]\<rparr> in
      case theta_estimates s1 (dimension item) of
        None \<Rightarrow> Inl KeyError
      | Some current_theta \<Rightarrow>
          (case update_theta current_theta item response of
             (new_theta, se) \<Rightarrow>
               Inr (s1\<lparr>theta_estimates := (theta_estimates s1)(dimension item \<mapsto> new_theta)\<rparr>)))"

text \<open>The range that every estimate of a session keeps.\<close>

definition estimates_bounded :: "AssessmentSession \<Rightarrow> bool" where
  "estimates_bounded s \<longleftrightarrow> (\<forall>d t. theta_estimates s d = Some t \<longrightarrow> - 3 \<le> t \<and> t \<le> 3)"

text \<open>
  The incremental estimation of a session: \<open>process_response\<close> after each response of a
  sequence of answered items, from the state the constructor builds, and the estimate the
  session then holds for a dimension.
\<close>

fun process_responses ::
  "(PersonalityItem \<times> int) list \<Rightarrow> AssessmentSession \<Rightarrow> error + AssessmentSession" where
  "process_responses [] s = Inr s"
| "process_responses ((item, response) # rest) s =
     (case process_response item response s of
        Inl e \<Rightarrow> Inl e
      | Inr s' \<Rightarrow> process_responses rest s')"

definition incremental_theta :: "(PersonalityItem \<times> int) list \<Rightarrow> string \<Rightarrow> real option" where
  "incremental_theta answered dimension_name =
     (case process_responses answered AssessmentSession_init of
        Inl e \<Rightarrow> None
      | Inr s \<Rightarrow> theta_estimates s dimension_name)"

section \<open>\<open>pure_python_irt.py\<close>: class \<open>GruenderAIEngine\<close>\<close>

text \<open>The nested helper \<open>safe_logistic\<close> of \<open>grm_probability\<close>.\<close>

definition safe_logistic :: "real \<Rightarrow> real" where
  "safe_logistic x =
     (if x > 500 then 1 else if x < - 500 then 0 else 1 / (1 + exp (- x)))"

text \<open>
  Python list indexing: a negative index counts from the end, and an index out of range raises
  \<open>IndexError\<close> (here \<open>None\<close>).
\<close>

definition py_index :: "'a list \<Rightarrow> int \<Rightarrow> 'a option" where
  "py_index xs i =
     (if 0 \<le> i \<and> i < int (length xs) then Some (xs ! nat i)
      else if - int (length xs) \<le> i \<and> i < 0 then Some (xs ! nat (int (length xs) + i))
      else None)"

text \<open>
  The \<open>try\<close> block of \<open>GruenderAIEngine.grm_probability\<close>. \<open>math.exp\<close> is only called
  on arguments between -500 and 500, where it does not overflow, so \<open>IndexError\<close> is the one
  exception the block can raise.
\<close>

definition grm_probability_try :: "real \<Rightarrow> real \<Rightarrow> real list \<Rightarrow> int \<Rightarrow> error + real" where
  "grm_probability_try theta a bs category =
     (if category = 1 then
        (case py_index bs 0 of
           None \<Rightarrow> Inl IndexError
         | Some b \<Rightarrow> (let z = a * (theta - b) in Inr (safe_logistic (- z))))
      else if category = 5 then
        (case py_index bs (- 1) of
           None \<Rightarrow> Inl IndexError
         | Some b \<Rightarrow> (let z = a * (theta - b) in Inr (safe_logistic z)))
      else
        (case py_index bs (category - 2) of
           None \<Rightarrow> Inl IndexError
         | Some b1 \<Rightarrow>
             (case py_index bs (category - 1) of
                None \<Rightarrow> Inl IndexError
              | Some b2 \<Rightarrow>
                  (let z1 = a * (theta - b1);
                       z2 = a * (theta - b2);
                       p1 = safe_logistic z1;
                       p2 = safe_logistic z2
                   in Inr (max 0.001 (p1 - p2))))))"

text \<open>\<open>GruenderAIEngine.grm_probability\<close>: the \<open>except\<close> clause turns the exception into 0.001.\<close>

definition grm_probability :: "real \<Rightarrow> real \<Rightarrow> real list \<Rightarrow> int \<Rightarrow> real" where
  "grm_probability theta a bs category =
     (case grm_probability_try theta a bs category of
        Inl _ \<Rightarrow> 0.001
      | Inr p \<Rightarrow> p)"

text \<open>\<open>GruenderAIEngine.fisher_information\<close>: the loop body over the categories 1 to 5, and the function.\<close>

definition fisher_step :: "real \<Rightarrow> real \<Rightarrow> real list \<Rightarrow> int \<Rightarrow> real \<Rightarrow> real" where
  "fisher_step theta a bs category total_info =
     (let prob = grm_probability theta a bs category in
      if prob > 0.001 then total_info + (a ^ 2) * prob * (1 - prob) else total_info)"

definition fisher_information :: "real \<Rightarrow> real \<Rightarrow> real list \<Rightarrow> real" where
  "fisher_information theta a bs =
     (let total_info = fold (fisher_step theta a bs) [1 .. 5] 0
      in max total_info 0.001)"



text \<open>
  \<open>GruenderAIEngine.estimate_theta\<close>. The candidate list, the inner loop that accumulates the
  log-likelihood of one candidate, the outer loop that keeps the best candidate, and the function.
\<close>

definition theta_grid :: "real list" where
  "theta_grid = map (\<lambda>i. real_of_int i * 0.1) [- 30 .. 30]"

definition log_likelihood_step :: "real \<Rightarrow> int \<times> PersonalityItem \<Rightarrow> real \<Rightarrow> real" where
  "log_likelihood_step theta_test pair log_likelihood =
     (case pair of (response, item) \<Rightarrow>
        (let prob = grm_probability theta_test (discrimination item)
                      (difficulty_thresholds item) response in
         if prob > 0.001 then log_likelihood + ln prob
         else log_likelihood + ln 0.001))"

definition log_likelihood :: "int list \<Rightarrow> PersonalityItem list \<Rightarrow> real \<Rightarrow> real" where
  "log_likelihood responses items theta_test =
     fold (log_likelihood_step theta_test) (zip responses items) 0"

fun grid_search :: "(real \<Rightarrow> real) \<Rightarrow> real list \<Rightarrow> real \<times> real \<Rightarrow> real \<times> real" where
  "grid_search ll [] (best_theta, best_likelihood) = (best_theta, best_likelihood)"
| "grid_search ll (theta_test # rest) (best_theta, best_likelihood) =
     (if ll theta_test > best_likelihood then grid_search ll rest (theta_test, ll theta_test)
      else grid_search ll rest (best_theta, best_likelihood))"

definition estimate_theta :: "int list \<Rightarrow> PersonalityItem list \<Rightarrow> real \<times> real" where
  "estimate_theta responses items =
     (if responses = [] \<or> items = [] then (0, 1)
      else
        (let best_theta = fst (grid_search (log_likelihood responses items) theta_grid (0, - 999999));
             total_info = sum_list (map (\<lambda>item. fisher_information best_theta (discrimination item)
                                                  (difficulty_thresholds item)) items);
             standard_error = 1 / sqrt (max total_info 0.1);
             standard_error = min 2 (max 0.1 standard_error)
         in (best_theta, standard_error)))"

text \<open>
  \<open>GruenderAIEngine.select_next_item\<close>: the loop over the candidates with its two variables
  \<open>best_item\<close> and \<open>max_info\<close>, and the function. A missing \<open>used_items\<close> is the empty list.
\<close>

fun select_loop ::
  "real \<Rightarrow> PersonalityItem list \<Rightarrow> PersonalityItem option \<times> real \<Rightarrow> PersonalityItem option \<times> real" where
  "select_loop current_theta [] (best_item, max_info) = (best_item, max_info)"
| "select_loop current_theta (item # rest) (best_item, max_info) =
     (let info = fisher_information current_theta (discrimination item) (difficulty_thresholds item) in
      if info > max_info then select_loop current_theta rest (Some item, info)
      else select_loop current_theta rest (best_item, max_info))"

definition select_next_item :: "real \<Rightarrow> PersonalityItem list \<Rightarrow> string list \<Rightarrow> PersonalityItem option" where
  "select_next_item current_theta available_items used_items =
     (if available_items = [] then None
      else
        (let candidates = filter (\<lambda>item. item_id item \<notin> set used_items) available_items in
         if candidates = [] then None
         else fst (select_loop current_theta candidates (None, - 1))))"

text \<open>
  Successive calls of \<open>select_next_item\<close>, one per current theta of the list, where the
  \<open>item_id\<close> of each selected item joins the used items before the next call. The result is
  the list of the items returned, in order; the run ends when the selector returns \<open>None\<close>.
\<close>

fun administer :: "real list \<Rightarrow> PersonalityItem list \<Rightarrow> string list \<Rightarrow> PersonalityItem list" where
  "administer [] available_items used_items = []"
| "administer (current_theta # thetas) available_items used_items =
     (case select_next_item current_theta available_items used_items of
        None \<Rightarrow> []
      | Some item \<Rightarrow> item # administer thetas available_items (used_items @ [item_id item]))"

section \<open>\<open>integrated_assessment_system.py\<close>: the stopping rule\<close>

text \<open>
  The keys of the session dictionary that \<open>should_stop_assessment\<close> reads or writes. The two
  dictionaries are association lists: \<open>se_estimates\<close> is iterated, \<open>context_weights\<close> is
  looked up with the default 0.5.
\<close>

record session =
  current_item :: int
  max_items :: int
  target_se :: real
  context_weights :: "(string \<times> real) list"
  se_estimates :: "(string \<times> real) list"
  completion_reason :: "string option"

definition count_step :: "session \<Rightarrow> string \<times> real \<Rightarrow> int \<times> int \<Rightarrow> int \<times> int" where
  "count_step s entry counters =
     (case (entry, counters) of ((dimn, se), (important_traits_ready, total_important_traits)) \<Rightarrow>
        (let weight = (case map_of (context_weights s) dimn of None \<Rightarrow> 0.5 | Some w \<Rightarrow> w) in
         if weight \<ge> 0.65 then
           (let required_se = target_se s * (if weight \<ge> 0.8 then 0.8 else 0.9) in
            (if se \<le> required_se then important_traits_ready + 1 else important_traits_ready,
             total_important_traits + 1))
         else (important_traits_ready, total_important_traits)))"

definition count_important_traits :: "session \<Rightarrow> int \<times> int" where
  "count_important_traits s = fold (count_step s) (se_estimates s) (0, 0)"

text \<open>\<open>should_stop_assessment\<close>: the returned flag and the session as the call leaves it.\<close>

definition should_stop_assessment :: "session \<Rightarrow> bool \<times> session" where
  "should_stop_assessment s =
     (if current_item s \<ge> max_items s then
        (True, s\<lparr>completion_reason := Some ''max_items_reached''\<rparr>)
      else
        (let (important_traits_ready, total_important_traits) = count_important_traits s in
         if total_important_traits > 0
            \<and> real_of_int important_traits_ready / real_of_int total_important_traits \<ge> 0.8
         then (True, s\<lparr>completion_reason := Some ''precision_criteria_met''\<rparr>)
         else if current_item s < 8 then (False, s)
         else (False, s)))"

text \<open>The \<open>fintech\<close> row of \<open>trait_weights\<close>, the \<open>context_weights\<close> of a fintech session.\<close>

definition fintech_weights :: "(string \<times> real) list" where
  "fintech_weights =
     [(''risk_taking'', 0.85), (''innovativeness'', 0.80), (''self_efficacy'', 0.75),
      (''achievement_orientation'', 0.70), (''proactiveness'', 0.65),
      (''autonomy_orientation'', 0.45), (''competitive_aggressiveness'', 0.55)]"

section \<open>Basic facts about the two engines\<close>

lemma logistic_denominator_pos: "0 < 1 + exp (x::real)"
  by (simp add: add_pos_pos)

lemma safe_logistic_nonneg: "0 \<le> safe_logistic x"
  using logistic_denominator_pos[of "- x"] by (simp add: safe_logistic_def)

lemma safe_logistic_le_one: "safe_logistic x \<le> 1"
  using logistic_denominator_pos[of "- x"] by (simp add: safe_logistic_def)

lemma grm_probability_nonneg: "0 \<le> grm_probability theta a bs category"
  by (auto simp add: grm_probability_def grm_probability_try_def Let_def safe_logistic_nonneg
      split: option.splits)

lemma grm_probability_middle_floor:
  "category \<noteq> 1 \<Longrightarrow> category \<noteq> 5 \<Longrightarrow> 0.001 \<le> grm_probability theta a bs category"
  by (auto simp add: grm_probability_def grm_probability_try_def Let_def max_def
      split: option.splits)

lemma cat_grm_probability_floor: "0.001 \<le> cat_grm_probability theta item response"
  by (simp add: cat_grm_probability_def Let_def max_def)

lemma fisher_information_floor: "0.001 \<le> fisher_information theta a bs"
  by (simp add: fisher_information_def Let_def max_def)

lemma log_likelihood_step_lower: "acc + ln 0.001 \<le> log_likelihood_step theta pair acc"
proof (cases pair)
  case (Pair response item)
  have "ln 0.001 \<le> ln p" if "0.001 < p" for p :: real
    using that by simp
  then show ?thesis
    by (simp add: Pair log_likelihood_step_def Let_def)
qed

section \<open>The loops of \<open>estimate_theta\<close> and \<open>select_next_item\<close>\<close>

text \<open>
  The outer loop of \<open>estimate_theta\<close> either never replaces its initial pair, and then no
  candidate exceeds the initial likelihood, or it ends on the first candidate of maximal
  likelihood.
\<close>

lemma grid_search_unchanged:
  "\<forall>t\<in>set ts. ll t \<le> m \<Longrightarrow> grid_search ll ts (b, m) = (b, m)"
  by (induction ts) auto

lemma grid_search_first_max:
  "(grid_search ll ts (b, m) = (b, m) \<and> (\<forall>t\<in>set ts. ll t \<le> m))
   \<or> (\<exists>i<length ts. grid_search ll ts (b, m) = (ts ! i, ll (ts ! i))
          \<and> m < ll (ts ! i)
          \<and> (\<forall>t\<in>set ts. ll t \<le> ll (ts ! i))
          \<and> (\<forall>j<i. ll (ts ! j) < ll (ts ! i)))"
proof (induction ts arbitrary: b m)
  case Nil
  then show ?case by simp
next
  case (Cons t ts)
  show ?case
  proof (cases "ll t > m")
    case True
    then have step: "grid_search ll (t # ts) (b, m) = grid_search ll ts (t, ll t)" by simp
    from Cons.IH[of t "ll t"] show ?thesis
    proof
      assume h: "grid_search ll ts (t, ll t) = (t, ll t) \<and> (\<forall>u\<in>set ts. ll u \<le> ll t)"
      have "0 < length (t # ts) \<and> grid_search ll (t # ts) (b, m) = ((t # ts) ! 0, ll ((t # ts) ! 0))
          \<and> m < ll ((t # ts) ! 0)
          \<and> (\<forall>u\<in>set (t # ts). ll u \<le> ll ((t # ts) ! 0))
          \<and> (\<forall>j<0. ll ((t # ts) ! j) < ll ((t # ts) ! 0))"
        using h True step by simp
      then show ?thesis by blast
    next
      assume "\<exists>i<length ts. grid_search ll ts (t, ll t) = (ts ! i, ll (ts ! i))
          \<and> ll t < ll (ts ! i)
          \<and> (\<forall>u\<in>set ts. ll u \<le> ll (ts ! i))
          \<and> (\<forall>j<i. ll (ts ! j) < ll (ts ! i))"
      then obtain i where i: "i < length ts" "grid_search ll ts (t, ll t) = (ts ! i, ll (ts ! i))"
          "ll t < ll (ts ! i)" "\<forall>u\<in>set ts. ll u \<le> ll (ts ! i)" "\<forall>j<i. ll (ts ! j) < ll (ts ! i)"
        by blast
      have "\<forall>j<Suc i. ll ((t # ts) ! j) < ll ((t # ts) ! Suc i)"
        using i(3,5) by (auto simp add: nth_Cons split: nat.splits)
      then have "Suc i < length (t # ts) \<and> grid_search ll (t # ts) (b, m) = ((t # ts) ! Suc i, ll ((t # ts) ! Suc i))
          \<and> m < ll ((t # ts) ! Suc i)
          \<and> (\<forall>u\<in>set (t # ts). ll u \<le> ll ((t # ts) ! Suc i))
          \<and> (\<forall>j<Suc i. ll ((t # ts) ! j) < ll ((t # ts) ! Suc i))"
        using i True step by auto
      then show ?thesis by blast
    qed
  next
    case False
    then have step: "grid_search ll (t # ts) (b, m) = grid_search ll ts (b, m)" by simp
    from Cons.IH[of b m] show ?thesis
    proof
      assume "grid_search ll ts (b, m) = (b, m) \<and> (\<forall>u\<in>set ts. ll u \<le> m)"
      then show ?thesis using False step by auto
    next
      assume "\<exists>i<length ts. grid_search ll ts (b, m) = (ts ! i, ll (ts ! i))
          \<and> m < ll (ts ! i)
          \<and> (\<forall>u\<in>set ts. ll u \<le> ll (ts ! i))
          \<and> (\<forall>j<i. ll (ts ! j) < ll (ts ! i))"
      then obtain i where i: "i < length ts" "grid_search ll ts (b, m) = (ts ! i, ll (ts ! i))"
          "m < ll (ts ! i)" "\<forall>u\<in>set ts. ll u \<le> ll (ts ! i)" "\<forall>j<i. ll (ts ! j) < ll (ts ! i)"
        by blast
      have "\<forall>j<Suc i. ll ((t # ts) ! j) < ll ((t # ts) ! Suc i)"
        using i(3,5) False by (auto simp add: nth_Cons split: nat.splits)
      then have "Suc i < length (t # ts) \<and> grid_search ll (t # ts) (b, m) = ((t # ts) ! Suc i, ll ((t # ts) ! Suc i))
          \<and> m < ll ((t # ts) ! Suc i)
          \<and> (\<forall>u\<in>set (t # ts). ll u \<le> ll ((t # ts) ! Suc i))
          \<and> (\<forall>j<Suc i. ll ((t # ts) ! j) < ll ((t # ts) ! Suc i))"
        using i False step by auto
      then show ?thesis by blast
    qed
  qed
qed

lemma select_loop_keeps_some:
  "\<exists>x. fst (select_loop theta cs (Some b, m)) = Some x \<and> (x = b \<or> x \<in> set cs)"
  by (induction cs arbitrary: b m) (auto simp add: Let_def)

lemma select_loop_selects:
  assumes "cs \<noteq> []" and "m < 0.001"
  shows "\<exists>x. fst (select_loop theta cs (None, m)) = Some x \<and> x \<in> set cs"
proof -
  obtain c rest where cs: "cs = c # rest" using assms(1) by (cases cs) auto
  have "m < fisher_information theta (discrimination c) (difficulty_thresholds c)"
    using fisher_information_floor[of theta "discrimination c" "difficulty_thresholds c"] assms(2) by linarith
  then have "select_loop theta cs (None, m) =
      select_loop theta rest (Some c, fisher_information theta (discrimination c) (difficulty_thresholds c))"
    by (simp add: cs Let_def)
  then show ?thesis
    using select_loop_keeps_some[of theta rest c "fisher_information theta (discrimination c) (difficulty_thresholds c)"]
    by (auto simp add: cs)
qed

lemma select_next_item_Some:
  assumes "select_next_item theta available used = Some x"
  shows "x \<in> set available \<and> item_id x \<notin> set used"
proof -
  let ?cs = "filter (\<lambda>item. item_id item \<notin> set used) available"
  from assms have ne: "?cs \<noteq> []" and r: "fst (select_loop theta ?cs (None, - 1)) = Some x"
    by (auto simp add: select_next_item_def Let_def split: if_splits)
  from select_loop_selects[OF ne, of "- 1" theta] r have "x \<in> set ?cs" by auto
  then show ?thesis by simp
qed

lemma select_next_item_None:
  "filter (\<lambda>item. item_id item \<notin> set used) available = [] \<Longrightarrow> select_next_item theta available used = None"
  by (simp add: select_next_item_def Let_def)

lemma select_next_item_nonempty:
  assumes "filter (\<lambda>item. item_id item \<notin> set used) available \<noteq> []"
  shows "\<exists>x. select_next_item theta available used = Some x"
proof -
  from assms have "available \<noteq> []" by auto
  then show ?thesis using select_loop_selects[OF assms, of "- 1" theta] assms
    by (auto simp add: select_next_item_def Let_def)
qed

lemma administer_fresh:
  "x \<in> set (administer thetas available used) \<Longrightarrow> item_id x \<notin> set used \<and> x \<in> set available"
proof (induction thetas arbitrary: used)
  case Nil then show ?case by simp
next
  case (Cons theta thetas)
  show ?case
  proof (cases "select_next_item theta available used")
    case None then show ?thesis using Cons.prems by simp
  next
    case (Some y)
    from select_next_item_Some[OF Some] have y: "y \<in> set available" "item_id y \<notin> set used" by simp_all
    from Cons.prems Some have "x = y \<or> x \<in> set (administer thetas available (used @ [item_id y]))" by simp
    then show ?thesis
    proof
      assume "x = y" then show ?thesis using y by simp
    next
      assume "x \<in> set (administer thetas available (used @ [item_id y]))"
      from Cons.IH[OF this] show ?thesis by simp
    qed
  qed
qed

lemma administer_distinct: "distinct (map item_id (administer thetas available used))"
proof (induction thetas arbitrary: used)
  case Nil then show ?case by simp
next
  case (Cons theta thetas)
  show ?case
  proof (cases "select_next_item theta available used")
    case None then show ?thesis by simp
  next
    case (Some y)
    have "item_id y \<notin> item_id ` set (administer thetas available (used @ [item_id y]))"
    proof
      assume "item_id y \<in> item_id ` set (administer thetas available (used @ [item_id y]))"
      then obtain x where x: "x \<in> set (administer thetas available (used @ [item_id y]))" "item_id x = item_id y"
        by auto
      from administer_fresh[OF x(1)] x(2) show False by simp
    qed
    then show ?thesis using Some Cons.IH[of "used @ [item_id y]"] by simp
  qed
qed

section \<open>The logistic function and the category probabilities\<close>

lemma logistic_strict_mono:
  "x < y \<Longrightarrow> 1 / (1 + exp (- x)) < 1 / (1 + exp (- (y::real)))"
proof -
  assume "x < y"
  then have "exp (- y) < exp (- x)" by simp
  then have "1 + exp (- y) < 1 + exp (- x)" by simp
  moreover have "0 < 1 + exp (- y)" by (rule logistic_denominator_pos)
  ultimately show ?thesis by (simp add: frac_less2)
qed

lemma logistic_less_one: "1 / (1 + exp (- (x::real))) < 1"
  using logistic_denominator_pos[of "- x"] by simp

lemma logistic_pos: "0 < 1 / (1 + exp (- (x::real)))"
  using logistic_denominator_pos[of "- x"] by simp

lemma safe_logistic_mono: "x \<le> y \<Longrightarrow> safe_logistic x \<le> safe_logistic y"
proof -
  assume xy: "x \<le> y"
  have "x = y \<or> x < y" using xy by linarith
  then show ?thesis
  proof
    assume "x = y" then show ?thesis by simp
  next
    assume "x < y"
    then show ?thesis
      using logistic_strict_mono[of x y] logistic_less_one[of x] logistic_pos[of y]
      by (simp add: safe_logistic_def)
  qed
qed

lemma logistic_neg: "1 / (1 + exp (x::real)) = 1 - 1 / (1 + exp (- x))"
proof -
  define e where "e = exp x"
  have e: "0 < e" by (simp add: e_def)
  then have nz: "e \<noteq> 0" "1 + e \<noteq> 0" "e + 1 \<noteq> 0" by simp_all
  have inv: "exp (- x) = 1 / e" by (simp add: e_def exp_minus inverse_eq_divide)
  have "1 / (1 + e) = 1 - 1 / (1 + 1 / e)" using nz by (simp add: field_simps)
  then show ?thesis by (simp only: inv e_def [symmetric])
qed

lemma safe_logistic_neg: "safe_logistic (- x) = 1 - safe_logistic x"
  using logistic_neg[of x] by (simp add: safe_logistic_def)

lemma grm_probability_four:
  "grm_probability theta a [b1, b2, b3, b4] 1 = safe_logistic (- (a * (theta - b1)))"
  "grm_probability theta a [b1, b2, b3, b4] 2 =
     max 0.001 (safe_logistic (a * (theta - b1)) - safe_logistic (a * (theta - b2)))"
  "grm_probability theta a [b1, b2, b3, b4] 3 =
     max 0.001 (safe_logistic (a * (theta - b2)) - safe_logistic (a * (theta - b3)))"
  "grm_probability theta a [b1, b2, b3, b4] 4 =
     max 0.001 (safe_logistic (a * (theta - b3)) - safe_logistic (a * (theta - b4)))"
  "grm_probability theta a [b1, b2, b3, b4] 5 = safe_logistic (a * (theta - b4))"
  by (simp_all add: grm_probability_def grm_probability_try_def py_index_def Let_def)

lemma floor_difference:
  "q \<le> (p::real) \<Longrightarrow> p - q \<le> max 0.001 (p - q) \<and> max 0.001 (p - q) \<le> p - q + 1 / 1000"
  by (simp add: max_def)

lemma grm_probability_sum_four:
  assumes a: "0 < a" and b: "b1 < b2" "b2 < b3" "b3 < b4"
  shows "1 \<le> sum_list (map (grm_probability theta a [b1, b2, b3, b4]) [1 .. 5])
       \<and> sum_list (map (grm_probability theta a [b1, b2, b3, b4]) [1 .. 5]) \<le> 1.003"
proof -
  let ?s1 = "safe_logistic (a * (theta - b1))"
  let ?s2 = "safe_logistic (a * (theta - b2))"
  let ?s3 = "safe_logistic (a * (theta - b3))"
  let ?s4 = "safe_logistic (a * (theta - b4))"
  have "a * (theta - b2) \<le> a * (theta - b1)" using a b by simp
  then have m1: "?s2 \<le> ?s1" by (rule safe_logistic_mono)
  have "a * (theta - b3) \<le> a * (theta - b2)" using a b by simp
  then have m2: "?s3 \<le> ?s2" by (rule safe_logistic_mono)
  have "a * (theta - b4) \<le> a * (theta - b3)" using a b by simp
  then have m3: "?s4 \<le> ?s3" by (rule safe_logistic_mono)
  have upto: "[1 .. 5] = [1, 2, 3, 4, 5 :: int]" by (simp add: upto_rec1)
  have total: "sum_list (map (grm_probability theta a [b1, b2, b3, b4]) [1 .. 5]) =
      (1 - ?s1) + max 0.001 (?s1 - ?s2) + max 0.001 (?s2 - ?s3) + max 0.001 (?s3 - ?s4) + ?s4"
    by (simp only: upto list.map sum_list.Cons sum_list.Nil grm_probability_four safe_logistic_neg)
  define d1 where "d1 = max 0.001 (?s1 - ?s2)"
  define d2 where "d2 = max 0.001 (?s2 - ?s3)"
  define d3 where "d3 = max 0.001 (?s3 - ?s4)"
  have f1: "?s1 - ?s2 \<le> d1" "d1 \<le> ?s1 - ?s2 + 1 / 1000"
    using floor_difference[OF m1] by (simp_all add: d1_def)
  have f2: "?s2 - ?s3 \<le> d2" "d2 \<le> ?s2 - ?s3 + 1 / 1000"
    using floor_difference[OF m2] by (simp_all add: d2_def)
  have f3: "?s3 - ?s4 \<le> d3" "d3 \<le> ?s3 - ?s4 + 1 / 1000"
    using floor_difference[OF m3] by (simp_all add: d3_def)
  have lower: "1 \<le> (1 - ?s1) + d1 + d2 + d3 + ?s4" using f1 f2 f3 by linarith
  have upper: "(1 - ?s1) + d1 + d2 + d3 + ?s4 \<le> 1 + 3 / 1000" using f1 f2 f3 by linarith
  have c: "(1.003::real) = 1 + 3 / 1000" by simp
  show ?thesis
    unfolding total c d1_def [symmetric] d2_def [symmetric] d3_def [symmetric]
    using lower upper by (rule conjI)
qed

lemma well_formed_item_cases:
  assumes "well_formed_item item"
  obtains b1 b2 b3 b4 where "difficulty_thresholds item = [b1, b2, b3, b4]"
    and "b1 < b2" and "b2 < b3" and "b3 < b4" and "0 < discrimination item"
proof -
  from assms have len: "length (difficulty_thresholds item) = 4"
    and srt: "sorted_wrt (<) (difficulty_thresholds item)" and a: "0 < discrimination item"
    by (simp_all add: well_formed_item_def)
  from len obtain b1 b2 b3 b4 where bs: "difficulty_thresholds item = [b1, b2, b3, b4]"
    by (auto simp add: length_Suc_conv numeral_eq_Suc)
  from srt bs have "b1 < b2" "b2 < b3" "b3 < b4" by simp_all
  with bs a that show ?thesis by blast
qed

lemma grm_probability_sum:
  assumes "well_formed_item item"
  shows "1 \<le> sum_list (map (grm_probability theta (discrimination item) (difficulty_thresholds item)) [1 .. 5])
       \<and> sum_list (map (grm_probability theta (discrimination item) (difficulty_thresholds item)) [1 .. 5]) \<le> 1.003"
proof -
  from assms obtain b1 b2 b3 b4 where "difficulty_thresholds item = [b1, b2, b3, b4]"
    and "b1 < b2" and "b2 < b3" and "b3 < b4" and "0 < discrimination item"
    by (rule well_formed_item_cases)
  then show ?thesis using grm_probability_sum_four[of "discrimination item" b1 b2 b3 b4 theta] by simp
qed

lemma cat_cumulative_term_logistic: "cat_cumulative_term a theta b = safe_logistic (a * (theta - b))"
  by (simp add: cat_cumulative_term_def safe_logistic_def Let_def)

lemma cat_grm_probability_four:
  assumes "difficulty_thresholds item = [b1, b2, b3, b4]"
  shows "cat_grm_probability theta item 1 = max (safe_logistic (discrimination item * (theta - b1)) - 0) 0.001"
    and "cat_grm_probability theta item 2 =
      max (safe_logistic (discrimination item * (theta - b2)) - safe_logistic (discrimination item * (theta - b1))) 0.001"
    and "cat_grm_probability theta item 3 =
      max (safe_logistic (discrimination item * (theta - b3)) - safe_logistic (discrimination item * (theta - b2))) 0.001"
    and "cat_grm_probability theta item 4 =
      max (safe_logistic (discrimination item * (theta - b4)) - safe_logistic (discrimination item * (theta - b3))) 0.001"
    and "cat_grm_probability theta item 5 = max (1 - safe_logistic (discrimination item * (theta - b4))) 0.001"
  using assms
  by (simp_all add: cat_grm_probability_def cat_cumulative_probs_def cat_cumulative_term_logistic Let_def)

lemma cat_grm_probability_middle:
  assumes "well_formed_item item" and "response = 2 \<or> response = 3 \<or> response = 4"
  shows "cat_grm_probability theta item response = 0.001"
proof -
  from assms(1) obtain b1 b2 b3 b4 where bs: "difficulty_thresholds item = [b1, b2, b3, b4]"
    and b: "b1 < b2" "b2 < b3" "b3 < b4" and a: "0 < discrimination item"
    by (rule well_formed_item_cases)
  let ?a = "discrimination item"
  have "?a * (theta - b2) \<le> ?a * (theta - b1)" using a b by simp
  then have m1: "safe_logistic (?a * (theta - b2)) \<le> safe_logistic (?a * (theta - b1))"
    by (rule safe_logistic_mono)
  have "?a * (theta - b3) \<le> ?a * (theta - b2)" using a b by simp
  then have m2: "safe_logistic (?a * (theta - b3)) \<le> safe_logistic (?a * (theta - b2))"
    by (rule safe_logistic_mono)
  have "?a * (theta - b4) \<le> ?a * (theta - b3)" using a b by simp
  then have m3: "safe_logistic (?a * (theta - b4)) \<le> safe_logistic (?a * (theta - b3))"
    by (rule safe_logistic_mono)
  from assms(2) show ?thesis
    using m1 m2 m3 by (auto simp add: cat_grm_probability_four[OF bs] max_def)
qed

lemma logistic_ge:
  assumes "4 / 3 \<le> (x::real)"
  shows "7 / 10 \<le> 1 / (1 + exp (- x))"
proof -
  have "1 + x \<le> exp x" by (rule exp_ge_add_one_self)
  then have e: "7 / 3 \<le> exp x" using assms by linarith
  then have pos: "0 < exp x" by simp
  have "exp (- x) = 1 / exp x" by (simp add: exp_minus inverse_eq_divide)
  also have "\<dots> \<le> 1 / (7 / 3)" using e by (intro divide_left_mono) simp_all
  finally have "1 + exp (- x) \<le> 10 / 7" by simp
  moreover have "0 < 1 + exp (- x)" by (rule logistic_denominator_pos)
  ultimately have "1 / (10 / 7) \<le> 1 / (1 + exp (- x))" by (intro divide_left_mono) simp_all
  then show ?thesis by simp
qed

section \<open>The candidate grid and the range of the estimates\<close>

lemma set_theta_grid: "set theta_grid = (\<lambda>i. real_of_int i * 0.1) ` {- 30 .. 30}"
  by (simp only: theta_grid_def set_map set_upto)

lemma theta_grid_range:
  assumes "t \<in> set theta_grid"
  shows "- 3 \<le> t \<and> t \<le> 3 \<and> (t \<noteq> 3 \<longrightarrow> t \<le> 2.9) \<and> (t \<le> 0 \<or> 0.1 \<le> t)"
proof -
  from assms have "t \<in> (\<lambda>i. real_of_int i * 0.1) ` {- 30 .. 30}" by (simp only: set_theta_grid)
  then obtain i :: int where mem: "i \<in> {- 30 .. 30}" and t: "t = real_of_int i * 0.1"
    by (rule imageE)
  from mem have i: "- 30 \<le> i" "i \<le> 30" by simp_all
  have r: "- 30 \<le> real_of_int i" "real_of_int i \<le> 30" using i by simp_all
  have "i \<noteq> 30 \<longrightarrow> i \<le> 29" using i by linarith
  then have n: "real_of_int i \<noteq> 30 \<longrightarrow> real_of_int i \<le> 29" by auto
  have "i \<le> 0 \<or> 1 \<le> i" by linarith
  then have z: "real_of_int i \<le> 0 \<or> 1 \<le> real_of_int i" by auto
  show ?thesis using r n z unfolding t by auto
qed

lemma three_in_theta_grid: "3 \<in> set theta_grid"
proof -
  have "(30::int) \<in> {- 30 .. 30}" by simp
  then have "real_of_int 30 * 0.1 \<in> (\<lambda>i. real_of_int i * 0.1) ` {- 30 .. 30}" by (rule imageI)
  then show ?thesis by (simp add: set_theta_grid)
qed

lemma estimate_theta_range:
  "- 3 \<le> fst (estimate_theta responses items) \<and> fst (estimate_theta responses items) \<le> 3"
proof (cases "responses = [] \<or> items = []")
  case True
  then show ?thesis by (simp add: estimate_theta_def)
next
  case False
  let ?ll = "log_likelihood responses items"
  have best: "fst (estimate_theta responses items) = fst (grid_search ?ll theta_grid (0, - 999999))"
    using False by (simp add: estimate_theta_def Let_def)
  from grid_search_first_max[of ?ll theta_grid 0 "- 999999"]
  have "fst (grid_search ?ll theta_grid (0, - 999999)) = 0
      \<or> fst (grid_search ?ll theta_grid (0, - 999999)) \<in> set theta_grid"
    by auto
  then show ?thesis using theta_grid_range best by auto
qed

lemma single_five_log_likelihood:
  "log_likelihood [5] [sample_item ''INNOV_001'' ''innovativeness'' 1.4 [- 1.2, - 0.3, 0.4, 1.3]] t =
     (if safe_logistic (1.4 * (t - 1.3)) > 0.001 then ln (safe_logistic (1.4 * (t - 1.3))) else ln 0.001)"
  by (simp add: log_likelihood_def log_likelihood_step_def sample_item_def grm_probability_four Let_def)


lemma ln_floor_bounds: "- 10 < ln (0.001::real) \<and> ln (0.001::real) < - 1"
proof -
  have l: "ln (0.001::real) = - ln 1000"
  proof -
    have "ln (0.001::real) = ln (1 / 1000)" by simp
    also have "\<dots> = - ln 1000" by (simp add: ln_div)
    finally show ?thesis .
  qed
  have p: "ln ((2::real) ^ 10) = real (10::nat) * ln 2" by (simp only: ln_realpow zero_less_numeral)
  have "ln (1000::real) < ln 1024" by simp
  also have "(1024::real) = 2 ^ 10" by simp
  finally have "ln (1000::real) < real (10::nat) * ln 2" by (simp only: p)
  then have up: "ln (1000::real) < 10" using ln_2_less_1 by simp
  have "exp (1::real) < 1000" using exp_le by (rule le_less_trans) simp
  then have "ln (exp (1::real)) < ln 1000" by (subst ln_less_cancel_iff) simp_all
  then have lo: "1 < ln (1000::real)" by simp
  show ?thesis using l up lo by linarith
qed

lemma logistic_difference_le_one: "safe_logistic x - safe_logistic y \<le> 1"
  using safe_logistic_le_one[of x] safe_logistic_nonneg[of y] by linarith

lemma grm_probability_le_one: "grm_probability theta a bs category \<le> 1"
  by (simp add: grm_probability_def grm_probability_try_def Let_def safe_logistic_le_one
      logistic_difference_le_one split: option.splits)

lemma log_likelihood_step_upper: "log_likelihood_step theta pair acc \<le> acc"
proof (cases pair)
  case (Pair response item)
  let ?p = "grm_probability theta (discrimination item) (difficulty_thresholds item) response"
  have le1: "?p \<le> 1" by (rule grm_probability_le_one)
  show ?thesis
  proof (cases "?p > 0.001")
    case True
    then have "0 < ?p" by simp
    then have "ln ?p \<le> 0" using le1 by simp
    then show ?thesis using True by (simp add: Pair log_likelihood_step_def Let_def)
  next
    case False
    then show ?thesis using ln_floor_bounds by (simp add: Pair log_likelihood_step_def Let_def)
  qed
qed

lemma fold_log_likelihood_step_lower:
  "acc + real (length pairs) * ln 0.001 \<le> fold (log_likelihood_step theta) pairs acc"
proof (induction pairs arbitrary: acc)
  case Nil then show ?case by simp
next
  case (Cons p ps)
  have "acc + ln 0.001 + real (length ps) * ln 0.001 \<le>
      log_likelihood_step theta p acc + real (length ps) * ln 0.001"
    using log_likelihood_step_lower[of acc theta p] by simp
  also have "\<dots> \<le> fold (log_likelihood_step theta) ps (log_likelihood_step theta p acc)"
    by (rule Cons.IH)
  finally show ?case by (simp add: algebra_simps)
qed

lemma log_likelihood_lower:
  assumes "length (zip responses items) \<le> 99999"
  shows "- 999999 < log_likelihood responses items theta"
proof -
  let ?n = "real (length (zip responses items))"
  have n: "?n \<le> 99999" using assms by simp
  have "?n * ln 0.001 \<ge> ?n * (- 10)" using ln_floor_bounds by (intro mult_left_mono) simp_all
  then have "- 999990 \<le> ?n * ln 0.001" using n by linarith
  moreover have "0 + ?n * ln 0.001 \<le> log_likelihood responses items theta"
    unfolding log_likelihood_def by (rule fold_log_likelihood_step_lower)
  ultimately show ?thesis by linarith
qed

lemma estimate_theta_first_maximum:
  assumes "responses \<noteq> []" and "items \<noteq> []" and "length (zip responses items) \<le> 99999"
  shows "\<exists>i<length theta_grid.
      fst (estimate_theta responses items) = theta_grid ! i
      \<and> (\<forall>t\<in>set theta_grid. log_likelihood responses items t
            \<le> log_likelihood responses items (theta_grid ! i))
      \<and> (\<forall>j<i. log_likelihood responses items (theta_grid ! j)
            < log_likelihood responses items (theta_grid ! i))"
proof -
  let ?ll = "log_likelihood responses items"
  have best: "fst (estimate_theta responses items) = fst (grid_search ?ll theta_grid (0, - 999999))"
    using assms(1,2) by (simp add: estimate_theta_def Let_def)
  from grid_search_first_max[of ?ll theta_grid 0 "- 999999"] show ?thesis
  proof
    assume "grid_search ?ll theta_grid (0, - 999999) = (0, - 999999) \<and> (\<forall>t\<in>set theta_grid. ?ll t \<le> - 999999)"
    then have "?ll 3 \<le> - 999999" using three_in_theta_grid by blast
    then show ?thesis using log_likelihood_lower[OF assms(3), of 3] by linarith
  next
    assume "\<exists>i<length theta_grid. grid_search ?ll theta_grid (0, - 999999) = (theta_grid ! i, ?ll (theta_grid ! i))
        \<and> - 999999 < ?ll (theta_grid ! i)
        \<and> (\<forall>t\<in>set theta_grid. ?ll t \<le> ?ll (theta_grid ! i))
        \<and> (\<forall>j<i. ?ll (theta_grid ! j) < ?ll (theta_grid ! i))"
    then show ?thesis unfolding best by auto
  qed
qed


lemma fold_add_replicate:
  assumes "\<And>acc. f x acc = acc + (c::real)"
  shows "fold f (replicate n x) acc = acc + real n * c"
  by (induction n arbitrary: acc) (simp_all add: assms algebra_simps)

lemma steep_item_category_two:
  assumes "t \<le> 0 \<or> 0.1 \<le> (t::real)"
  shows "grm_probability t 100000 [0.04, 0.06, 1, 2.95] 2 = 0.001"
  using assms by (auto simp add: grm_probability_four safe_logistic_def)

lemma steep_log_likelihood:
  assumes "t \<le> 0 \<or> 0.1 \<le> (t::real)"
  shows "log_likelihood (replicate n 2 @ [5])
           (replicate n (sample_item ''STEEP_001'' ''innovativeness'' 100000 [0.04, 0.06, 1, 2.95])
              @ [sample_item ''STEEP_001'' ''innovativeness'' 100000 [0.04, 0.06, 1, 2.95]]) t
       = log_likelihood_step t (5, sample_item ''STEEP_001'' ''innovativeness'' 100000 [0.04, 0.06, 1, 2.95])
           (real n * ln 0.001)"
proof -
  let ?X = "sample_item ''STEEP_001'' ''innovativeness'' 100000 [0.04, 0.06, 1, 2.95]"
  have step: "log_likelihood_step t (2, ?X) acc = acc + ln 0.001" for acc
    using steep_item_category_two[OF assms]
    by (simp add: log_likelihood_step_def sample_item_def Let_def)
  have z: "zip (replicate n (2::int) @ [5]) (replicate n ?X @ [?X]) = replicate n (2, ?X) @ [(5, ?X)]"
    by simp
  show ?thesis
    unfolding log_likelihood_def z fold_append comp_def
    using fold_add_replicate[of "log_likelihood_step t" "(2, ?X)" "ln 0.001" n 0, OF step]
    by simp
qed

section \<open>Rounding to a float\<close>

text \<open>
  The rounding error of \<open>binary64\<close>, its value at a given exponent, and the floats of the
  literals that \<open>update_theta\<close> adds.
\<close>

lemma round_half_even_error: "\<bar>of_int (round_half_even r) - r\<bar> \<le> 1 / 2"
proof -
  have "of_int \<lfloor>r\<rfloor> \<le> r" "r < of_int \<lfloor>r\<rfloor> + 1" by linarith+
  then show ?thesis by (auto simp add: round_half_even_def Let_def)
qed

lemma round_half_even_of_int: "round_half_even (of_int n) = n"
  by (simp add: round_half_even_def Let_def)

lemma binary64_exponent:
  assumes "2 powr of_int e \<le> \<bar>x\<bar>" and "\<bar>x\<bar> < 2 powr (of_int e + 1)" and "- 1022 \<le> e"
  shows "binary64 x = of_int (round_half_even (x / 2 powr (of_int e - 52))) * 2 powr (of_int e - 52)"
proof -
  have pos: "0 < \<bar>x\<bar>" using assms(1) by (smt (verit) powr_gt_zero)
  then have nz: "x \<noteq> 0" by auto
  have "of_int e \<le> log 2 \<bar>x\<bar>" using assms(1) pos by (simp add: le_log_iff)
  moreover have "log 2 \<bar>x\<bar> < of_int e + 1" using assms(2) pos by (simp add: log_less_iff)
  ultimately have "\<lfloor>log 2 \<bar>x\<bar>\<rfloor> = e" by (simp add: floor_eq_iff)
  then show ?thesis using nz assms(3) by (simp add: binary64_def Let_def max_def)
qed

lemma two_powr_diff: "(2::real) powr (of_int e - real n) = 2 powr of_int e / 2 ^ n"
  by (simp add: powr_diff powr_realpow)

lemma binary64_error: "\<bar>binary64 x - x\<bar> \<le> \<bar>x\<bar> / 2 ^ 53 + 1 / 2 ^ 1075"
proof (cases "x = 0")
  case True
  then show ?thesis by (simp add: binary64_def)
next
  case False
  define e where "e = max \<lfloor>log 2 \<bar>x\<bar>\<rfloor> (- 1022)"
  define u :: real where "u = 2 powr (of_int e - 52)"
  have u: "0 < u" by (simp add: u_def)
  have fl: "binary64 x = of_int (round_half_even (x / u)) * u"
    using False by (simp add: binary64_def Let_def e_def u_def)
  have "\<bar>binary64 x - x\<bar> = \<bar>of_int (round_half_even (x / u)) - x / u\<bar> * u"
  proof -
    have "binary64 x - x = (of_int (round_half_even (x / u)) - x / u) * u"
      using u by (simp add: fl field_simps)
    then show ?thesis using u by (simp add: abs_mult)
  qed
  also have "\<dots> \<le> 1 / 2 * u"
    using round_half_even_error[of "x / u"] u by (intro mult_right_mono) simp_all
  finally have b: "\<bar>binary64 x - x\<bar> \<le> u / 2" by simp
  have half: "u / 2 = 2 powr of_int e / 2 ^ 53"
    using two_powr_diff[of e 52] by (simp add: u_def)
  show ?thesis
  proof (cases "e = \<lfloor>log 2 \<bar>x\<bar>\<rfloor>")
    case True
    have "of_int e \<le> log 2 \<bar>x\<bar>" unfolding True by simp
    then have "2 powr of_int e \<le> \<bar>x\<bar>" using False by (simp add: le_log_iff)
    then have "u / 2 \<le> \<bar>x\<bar> / 2 ^ 53" unfolding half by (simp add: divide_right_mono)
    moreover have "(0::real) \<le> 1 / 2 ^ 1075" by simp
    ultimately show ?thesis using b by linarith
  next
    case False
    then have "e = - 1022" unfolding e_def by (simp add: max_def split: if_splits)
    then have "u / 2 = 2 powr (- real (1022::nat)) / 2 ^ 53" unfolding half by simp
    also have "\<dots> = (1 / 2 ^ 1022) / 2 ^ 53"
      by (simp only: powr_minus_divide powr_realpow zero_less_numeral)
    also have "\<dots> = 1 / 2 ^ 1075" by (simp add: power_add [symmetric])
    finally have "u / 2 = 1 / 2 ^ 1075" .
    moreover have "0 \<le> \<bar>x\<bar> / 2 ^ 53" by simp
    ultimately show ?thesis using b by linarith
  qed
qed

lemma binary64_below_one:
  assumes "1 / 2 ^ n \<le> \<bar>x\<bar>" and "\<bar>x\<bar> < 2 / 2 ^ n" and "n \<le> 1022"
  shows "binary64 x = of_int (round_half_even (x * 2 ^ (n + 52))) / 2 ^ (n + 52)"
proof -
  have p: "(2::real) powr of_int (- int n) = 1 / 2 ^ n"
    by (simp add: powr_minus_divide powr_realpow)
  have q: "(2::real) powr (of_int (- int n) + 1) = 2 / 2 ^ n"
  proof -
    have "(2::real) powr (of_int (- int n) + 1) = 2 powr (1 - real n)" by simp
    also have "\<dots> = 2 powr 1 / 2 powr real n" by (rule powr_diff)
    also have "\<dots> = 2 / 2 ^ n" by (simp add: powr_realpow)
    finally show ?thesis .
  qed
  have u: "(2::real) powr (of_int (- int n) - 52) = 1 / 2 ^ (n + 52)"
    using two_powr_diff[of "- int n" 52] by (simp add: powr_minus_divide powr_realpow power_add)
  have "binary64 x = of_int (round_half_even (x / 2 powr (of_int (- int n) - 52))) * 2 powr (of_int (- int n) - 52)"
  proof (rule binary64_exponent)
    show "2 powr of_int (- int n) \<le> \<bar>x\<bar>" using assms(1) by (simp only: p)
    show "\<bar>x\<bar> < 2 powr (of_int (- int n) + 1)" using assms(2) by (simp only: q)
    show "- 1022 \<le> - int n" using assms(3) by simp
  qed
  then show ?thesis unfolding u by simp
qed

lemma binary64_one_fifth: "binary64 0.2 = 3602879701896397 / 2 ^ 54"
  using binary64_below_one[of 3 "0.2"] by (simp add: round_half_even_def Let_def)

lemma binary64_two_fifths: "binary64 0.4 = 3602879701896397 / 2 ^ 53"
  using binary64_below_one[of 2 "0.4"] by (simp add: round_half_even_def Let_def)

lemma binary64_two_fifths_float: "binary64 (3602879701896397 / 2 ^ 53) = 3602879701896397 / 2 ^ 53"
  using binary64_below_one[of 2 "3602879701896397 / 2 ^ 53"] by (simp add: round_half_even_def Let_def)

lemma binary64_one_fifth_float: "binary64 (3602879701896397 / 2 ^ 54) = 3602879701896397 / 2 ^ 54"
  using binary64_below_one[of 3 "3602879701896397 / 2 ^ 54"] by (simp add: round_half_even_def Let_def)

lemma binary64_three_fifths_sum:
  "binary64 (3602879701896397 / 2 ^ 53 + 3602879701896397 / 2 ^ 54) = 5404319552844596 / 2 ^ 53"
  using binary64_below_one[of 1 "3602879701896397 / 2 ^ 53 + 3602879701896397 / 2 ^ 54"]
  by (simp add: round_half_even_def Let_def)

lemma binary64_one_fifth_normal: "binary64 (1 / 5) = 3602879701896397 / 2 ^ 54"
  using binary64_one_fifth by simp

lemma binary64_two_fifths_normal: "binary64 (2 / 5) = 3602879701896397 / 2 ^ 53"
  using binary64_two_fifths by simp


section \<open>The step of \<open>update_theta\<close> and the estimates of a session\<close>

lemma update_theta_range:
  "- 3 \<le> fst (update_theta current_theta item response)
   \<and> fst (update_theta current_theta item response) \<le> 3"
  by (simp add: update_theta_def Let_def max_def min_def)

lemma update_theta_item_free:
  "fst (update_theta current_theta item response) = fst (update_theta current_theta item' response)"
  by (simp add: update_theta_def Let_def)

lemma one_fifth_distance: "\<bar>binary64 0.2 - 0.2\<bar> \<le> 1 / 2 ^ 56"
  by (simp add: binary64_one_fifth_normal)

lemma rounded_step_error:
  assumes "\<bar>x\<bar> \<le> 3.3"
  shows "\<bar>binary64 x - x\<bar> \<le> 3.3 / 2 ^ 53 + 1 / 2 ^ 1075"
proof -
  have "\<bar>x\<bar> / 2 ^ 53 \<le> 3.3 / 2 ^ 53" using assms by (simp add: divide_right_mono)
  then show ?thesis using binary64_error[of x] by linarith
qed

lemma step_tolerance: "(3.3::real) / 2 ^ 53 + 1 / 2 ^ 1075 + 1 / 2 ^ 56 \<le> 1 / 2 ^ 51"
proof -
  have "(1::real) / 2 ^ 1075 \<le> 1 / 2 ^ 56" by (simp add: power_increasing)
  moreover have "(3.3::real) / 2 ^ 53 + 1 / 2 ^ 56 + 1 / 2 ^ 56 \<le> 1 / 2 ^ 51" by simp
  ultimately show ?thesis by linarith
qed

lemma float_add_step:
  assumes "- 3 \<le> cur" and "cur \<le> 3"
  shows "\<bar>float_add cur (binary64 0.2) - (cur + 0.2)\<bar> \<le> 1 / 2 ^ 51"
proof -
  let ?c = "binary64 0.2"
  have c: "\<bar>?c - 0.2\<bar> \<le> 1 / 2 ^ 56" by (rule one_fifth_distance)
  have "0 \<le> ?c" and "?c \<le> 3 / 10" unfolding binary64_one_fifth by simp_all
  then have "\<bar>cur + ?c\<bar> \<le> 3.3" using assms by linarith
  then have "\<bar>binary64 (cur + ?c) - (cur + ?c)\<bar> \<le> 3.3 / 2 ^ 53 + 1 / 2 ^ 1075"
    by (rule rounded_step_error)
  then have "\<bar>binary64 (cur + ?c) - (cur + 0.2)\<bar> \<le> 3.3 / 2 ^ 53 + 1 / 2 ^ 1075 + 1 / 2 ^ 56"
    using c by linarith
  then show ?thesis unfolding float_add_def using step_tolerance by linarith
qed

lemma float_sub_step:
  assumes "- 3 \<le> cur" and "cur \<le> 3"
  shows "\<bar>float_sub cur (binary64 0.2) - (cur - 0.2)\<bar> \<le> 1 / 2 ^ 51"
proof -
  let ?c = "binary64 0.2"
  have c: "\<bar>?c - 0.2\<bar> \<le> 1 / 2 ^ 56" by (rule one_fifth_distance)
  have "0 \<le> ?c" and "?c \<le> 3 / 10" unfolding binary64_one_fifth by simp_all
  then have "\<bar>cur - ?c\<bar> \<le> 3.3" using assms by linarith
  then have "\<bar>binary64 (cur - ?c) - (cur - ?c)\<bar> \<le> 3.3 / 2 ^ 53 + 1 / 2 ^ 1075"
    by (rule rounded_step_error)
  then have "\<bar>binary64 (cur - ?c) - (cur - 0.2)\<bar> \<le> 3.3 / 2 ^ 53 + 1 / 2 ^ 1075 + 1 / 2 ^ 56"
    using c by linarith
  then show ?thesis unfolding float_sub_def using step_tolerance by linarith
qed

lemma clamp_near_min:
  assumes "\<bar>y - x\<bar> \<le> eps" and "eps \<le> 1 / 10" and "- 2.8 \<le> (x::real)"
  shows "\<bar>max (- 3) (min 3 y) - min 3 x\<bar> \<le> eps"
  using assms by (simp add: max_def min_def abs_le_iff)

lemma clamp_near_max:
  assumes "\<bar>y - x\<bar> \<le> eps" and "eps \<le> 1 / 10" and "(x::real) \<le> 2.8"
  shows "\<bar>max (- 3) (min 3 y) - max (- 3) x\<bar> \<le> eps"
  using assms by (simp add: max_def min_def abs_le_iff)

lemma update_theta_up:
  assumes "- 3 \<le> cur" and "cur \<le> 3" and "4 \<le> response"
  shows "\<bar>fst (update_theta cur item response) - min 3 (cur + 0.2)\<bar> \<le> 1 / 2 ^ 51"
proof -
  have "(1::real) / 2 ^ 51 \<le> 1 / 10" by simp
  moreover have "- 2.8 \<le> cur + 0.2" using assms(1) by simp
  ultimately have "\<bar>max (- 3) (min 3 (float_add cur (binary64 0.2))) - min 3 (cur + 0.2)\<bar> \<le> 1 / 2 ^ 51"
    using float_add_step[OF assms(1,2)] by (intro clamp_near_min)
  then show ?thesis using assms(3) by (simp add: update_theta_def Let_def)
qed

lemma update_theta_down:
  assumes "- 3 \<le> cur" and "cur \<le> 3" and "response \<le> 2"
  shows "\<bar>fst (update_theta cur item response) - max (- 3) (cur - 0.2)\<bar> \<le> 1 / 2 ^ 51"
proof -
  have "(1::real) / 2 ^ 51 \<le> 1 / 10" by simp
  moreover have "cur - 0.2 \<le> 2.8" using assms(2) by simp
  ultimately have "\<bar>max (- 3) (min 3 (float_sub cur (binary64 0.2))) - max (- 3) (cur - 0.2)\<bar> \<le> 1 / 2 ^ 51"
    using float_sub_step[OF assms(1,2)] by (intro clamp_near_max)
  moreover have "\<not> 4 \<le> response" using assms(3) by simp
  ultimately show ?thesis using assms(3) by (simp add: update_theta_def Let_def)
qed

lemma update_theta_neutral:
  assumes "binary64 cur = cur" and "- 3 \<le> cur" and "cur \<le> 3"
  shows "fst (update_theta cur item 3) = cur"
  using assms by (simp add: update_theta_def Let_def float_add_def float_mul_def binary64_def [of 0])


lemma process_response_estimate:
  assumes "theta_estimates s (dimension item) = Some cur"
  shows "\<exists>s'. process_response item response s = Inr s'
       \<and> theta_estimates s' = (theta_estimates s)(dimension item \<mapsto> fst (update_theta cur item response))"
  using assms by (simp add: process_response_def Let_def split: prod.splits)

lemma process_response_unknown:
  "theta_estimates s (dimension item) = None \<Longrightarrow> process_response item response s = Inl KeyError"
  by (simp add: process_response_def Let_def)

lemma process_response_bounded:
  assumes "process_response item response s = Inr s'" and "estimates_bounded s"
  shows "estimates_bounded s'"
proof (cases "theta_estimates s (dimension item)")
  case None
  then show ?thesis using assms(1) by (simp add: process_response_unknown)
next
  case (Some cur)
  from process_response_estimate[OF Some, of response] assms(1)
  have "theta_estimates s' = (theta_estimates s)(dimension item \<mapsto> fst (update_theta cur item response))"
    by auto
  then show ?thesis
    using assms(2) update_theta_range[of cur item response]
    by (auto simp add: estimates_bounded_def)
qed

lemma process_responses_bounded:
  assumes "process_responses answered s = Inr s'" and "estimates_bounded s"
  shows "estimates_bounded s'"
  using assms
proof (induction answered arbitrary: s)
  case Nil
  then show ?case by simp
next
  case (Cons p rest)
  obtain item response where p: "p = (item, response)" by (cases p)
  show ?case
  proof (cases "process_response item response s")
    case (Inl e)
    then show ?thesis using Cons.prems(1) by (simp add: p)
  next
    case (Inr s1)
    have run: "process_responses rest s1 = Inr s'" using Cons.prems(1) Inr by (simp add: p)
    have bounded: "estimates_bounded s1"
      using Inr Cons.prems(2) by (rule process_response_bounded)
    show ?thesis using run bounded by (rule Cons.IH)
  qed
qed

lemma initial_estimates_bounded: "estimates_bounded AssessmentSession_init"
  by (auto simp add: estimates_bounded_def AssessmentSession_init_def split: if_splits)

lemma incremental_theta_range:
  assumes "incremental_theta answered d = Some t"
  shows "- 3 \<le> t \<and> t \<le> 3"
proof (cases "process_responses answered AssessmentSession_init")
  case (Inl e)
  then show ?thesis using assms by (simp add: incremental_theta_def)
next
  case (Inr s)
  then have "theta_estimates s d = Some t" using assms by (simp add: incremental_theta_def)
  moreover have "estimates_bounded s"
    using Inr initial_estimates_bounded by (rule process_responses_bounded)
  ultimately show ?thesis by (simp add: estimates_bounded_def)
qed

lemma incremental_theta_empty:
  "incremental_theta [] = theta_estimates AssessmentSession_init"
  by (rule ext) (simp add: incremental_theta_def)

lemma incremental_single_five:
  "incremental_theta [(sample_item ''INNOV_001'' ''innovativeness'' 1.4 [- 1.2, - 0.3, 0.4, 1.3], 5)]
     ''innovativeness'' = Some (3602879701896397 / 2 ^ 54)"
proof -
  let ?item = "sample_item ''INNOV_001'' ''innovativeness'' 1.4 [- 1.2, - 0.3, 0.4, 1.3]"
  have new: "fst (update_theta 0 ?item 5) = 3602879701896397 / 2 ^ 54"
    unfolding update_theta_def Let_def float_add_def binary64_one_fifth
    using binary64_one_fifth_float by simp
  have "theta_estimates AssessmentSession_init (dimension ?item) = Some 0"
    by (simp add: AssessmentSession_init_def sample_item_def)
  from process_response_estimate[OF this, of 5]
  obtain s' where run: "process_response ?item 5 AssessmentSession_init = Inr s'"
    and est: "theta_estimates s' = (theta_estimates AssessmentSession_init)(dimension ?item \<mapsto>
        fst (update_theta 0 ?item 5))"
    by blast
  have "incremental_theta [(?item, 5)] ''innovativeness'' = theta_estimates s' ''innovativeness''"
    unfolding incremental_theta_def process_responses.simps run by simp
  also have "\<dots> = Some (fst (update_theta 0 ?item 5))"
    unfolding est by (simp add: sample_item_def)
  finally show ?thesis by (simp only: new)
qed

lemma single_five_estimate:
  "fst (estimate_theta [5] [sample_item ''INNOV_001'' ''innovativeness'' 1.4 [- 1.2, - 0.3, 0.4, 1.3]]) = 3"
proof -
  let ?item = "sample_item ''INNOV_001'' ''innovativeness'' 1.4 [- 1.2, - 0.3, 0.4, 1.3]"
  let ?ll = "log_likelihood [5] [?item]"
  have half: "1 / 2 < safe_logistic (1.4 * (3 - 1.3))"
  proof -
    have "7 / 10 \<le> 1 / (1 + exp (- (238 / 100 :: real)))" by (rule logistic_ge) simp
    moreover have "safe_logistic (1.4 * (3 - 1.3)) = 1 / (1 + exp (- (238 / 100 :: real)))"
      by (simp add: safe_logistic_def)
    ultimately show ?thesis by linarith
  qed
  then have ll3: "?ll 3 = ln (safe_logistic (1.4 * (3 - 1.3)))"
    unfolding single_five_log_likelihood by simp
  have below: "?ll t < ?ll 3" if t: "- 3 \<le> t" "t \<le> 2.9" for t
  proof (cases "safe_logistic (1.4 * (t - 1.3)) > 0.001")
    case True
    have "1.4 * (t - 1.3) < 1.4 * (3 - 1.3)" using t by simp
    moreover have "- 500 \<le> 1.4 * (t - 1.3)" "1.4 * (3 - 1.3) \<le> (500::real)" using t by simp_all
    ultimately have "safe_logistic (1.4 * (t - 1.3)) < safe_logistic (1.4 * (3 - 1.3))"
      using logistic_strict_mono[of "1.4 * (t - 1.3)" "1.4 * (3 - 1.3)"]
      by (simp add: safe_logistic_def)
    moreover have "0 < safe_logistic (1.4 * (t - 1.3))" using True by simp
    ultimately have "ln (safe_logistic (1.4 * (t - 1.3))) < ln (safe_logistic (1.4 * (3 - 1.3)))"
      by simp
    moreover have "?ll t = ln (safe_logistic (1.4 * (t - 1.3)))"
      using True unfolding single_five_log_likelihood by simp
    ultimately show ?thesis by (simp only: ll3)
  next
    case False
    have "(0.001::real) < 1 / 2" by simp
    then have "(0.001::real) < safe_logistic (1.4 * (3 - 1.3))" using half by linarith
    then have "ln (0.001::real) < ln (safe_logistic (1.4 * (3 - 1.3)))" by simp
    moreover have "?ll t = ln 0.001"
      using False unfolding single_five_log_likelihood by simp
    ultimately show ?thesis by (simp only: ll3)
  qed
  have big: "- 999999 < ?ll 3"
  proof -
    have "ln (1 / 2 :: real) < ln (safe_logistic (1.4 * (3 - 1.3)))" using half by simp
    moreover have "ln (1 / 2 :: real) = - ln 2" by (simp add: ln_div)
    moreover have "ln (2::real) < 1" by (rule ln_2_less_1)
    ultimately show ?thesis unfolding ll3 by linarith
  qed
  have best: "fst (estimate_theta [5] [?item]) = fst (grid_search ?ll theta_grid (0, - 999999))"
    by (simp add: estimate_theta_def Let_def)
  from grid_search_first_max[of ?ll theta_grid 0 "- 999999"]
  have "fst (grid_search ?ll theta_grid (0, - 999999)) = 3"
  proof
    assume "grid_search ?ll theta_grid (0, - 999999) = (0, - 999999) \<and> (\<forall>t\<in>set theta_grid. ?ll t \<le> - 999999)"
    then have "?ll 3 \<le> - 999999" using three_in_theta_grid by blast
    then show ?thesis using big by linarith
  next
    assume "\<exists>i<length theta_grid. grid_search ?ll theta_grid (0, - 999999) = (theta_grid ! i, ?ll (theta_grid ! i))
        \<and> - 999999 < ?ll (theta_grid ! i)
        \<and> (\<forall>t\<in>set theta_grid. ?ll t \<le> ?ll (theta_grid ! i))
        \<and> (\<forall>j<i. ?ll (theta_grid ! j) < ?ll (theta_grid ! i))"
    then obtain i where i: "i < length theta_grid"
        "grid_search ?ll theta_grid (0, - 999999) = (theta_grid ! i, ?ll (theta_grid ! i))"
        "\<forall>t\<in>set theta_grid. ?ll t \<le> ?ll (theta_grid ! i)"
      by blast
    have mem: "theta_grid ! i \<in> set theta_grid" using i(1) by simp
    have "theta_grid ! i = 3"
    proof (rule ccontr)
      assume "theta_grid ! i \<noteq> 3"
      then have "- 3 \<le> theta_grid ! i" "theta_grid ! i \<le> 2.9" using theta_grid_range[OF mem] by simp_all
      then have "?ll (theta_grid ! i) < ?ll 3" by (rule below)
      moreover have "?ll 3 \<le> ?ll (theta_grid ! i)" using i(3) three_in_theta_grid by blast
      ultimately show False by linarith
    qed
    then show ?thesis using i(2) by simp
  qed
  then show ?thesis using best by simp
qed

lemma log_likelihood_step_above: "acc - 10 \<le> log_likelihood_step theta pair acc"
  using log_likelihood_step_lower[of acc theta pair] ln_floor_bounds by linarith

section \<open>Information with and without a floor\<close>






















lemma py_index_first: "bs \<noteq> [] \<Longrightarrow> py_index bs 0 = Some (hd bs)"
  by (cases bs) (simp_all add: py_index_def)

lemma py_index_last: "bs \<noteq> [] \<Longrightarrow> py_index bs (- 1) = Some (last bs)"
  by (cases bs rule: rev_cases) (simp_all add: py_index_def nth_append)

lemma grm_probability_ends:
  assumes "bs \<noteq> []"
  shows "grm_probability theta a bs 1 = safe_logistic (- (a * (theta - hd bs)))"
    and "grm_probability theta a bs 5 = safe_logistic (a * (theta - last bs))"
  using py_index_first[OF assms] py_index_last[OF assms]
  by (simp_all add: grm_probability_def grm_probability_try_def Let_def)

lemma safe_logistic_zero_iff: "safe_logistic x = 0 \<longleftrightarrow> x < - 500"
  using logistic_denominator_pos[of "- x"] by (auto simp add: safe_logistic_def)







section \<open>The stopping rule\<close>

text \<open>
  Claim C1. With fewer administered items than the minimum, the stopping rule should return
  continue even when the standard errors already meet the target. In
  \<open>should_stop_assessment\<close> the precision test comes first and the minimum-items test after
  it returns \<open>False\<close> on both sides: a fintech session with 7 administered items, limit 15,
  target 0.2 and every standard error at 0.15 is stopped with reason
  \<open>precision_criteria_met\<close>.
\<close>

theorem should_stop_assessment_below_minimum:
  "should_stop_assessment
     \<lparr>current_item = 7, max_items = 15, target_se = 0.2, context_weights = fintech_weights,
        se_estimates = [(''risk_taking'', 0.15), (''innovativeness'', 0.15), (''self_efficacy'', 0.15),
          (''achievement_orientation'', 0.15), (''proactiveness'', 0.15),
          (''autonomy_orientation'', 0.15), (''competitive_aggressiveness'', 0.15)],
        completion_reason = None\<rparr>
   = (True,
     \<lparr>current_item = 7, max_items = 15, target_se = 0.2, context_weights = fintech_weights,
        se_estimates = [(''risk_taking'', 0.15), (''innovativeness'', 0.15), (''self_efficacy'', 0.15),
          (''achievement_orientation'', 0.15), (''proactiveness'', 0.15),
          (''autonomy_orientation'', 0.15), (''competitive_aggressiveness'', 0.15)],
        completion_reason = Some ''precision_criteria_met''\<rparr>)"
  by (simp add: should_stop_assessment_def count_important_traits_def count_step_def
      fintech_weights_def Let_def)

section \<open>Probabilities over the five categories\<close>

text \<open>
  Claim C2. The probabilities of the five categories should sum to 1 up to the flooring.
  \<open>GruenderAIEngine.grm_probability\<close> does so (lemma \<open>grm_probability_sum\<close>: the sum
  lies between 1 and 1.003 for every well-formed item). \<open>IRTCATEngine.grm_probability\<close>
  subtracts neighbouring entries of a list that decreases over the thresholds, so each middle
  category of a well-formed item is floored to 0.001 and the two end categories overlap: for the
  first sample item at theta 0 the five values sum to more than 1.4.
\<close>

theorem cat_grm_probability_sum_exceeds:
  "well_formed_item (sample_item ''INNOV_001'' ''innovativeness'' 1.4 [- 1.2, - 0.3, 0.4, 1.3])
   \<and> cat_grm_probability 0 (sample_item ''INNOV_001'' ''innovativeness'' 1.4 [- 1.2, - 0.3, 0.4, 1.3]) 2 = 0.001
   \<and> cat_grm_probability 0 (sample_item ''INNOV_001'' ''innovativeness'' 1.4 [- 1.2, - 0.3, 0.4, 1.3]) 3 = 0.001
   \<and> cat_grm_probability 0 (sample_item ''INNOV_001'' ''innovativeness'' 1.4 [- 1.2, - 0.3, 0.4, 1.3]) 4 = 0.001
   \<and> 1.4 < sum_list (map (cat_grm_probability 0
        (sample_item ''INNOV_001'' ''innovativeness'' 1.4 [- 1.2, - 0.3, 0.4, 1.3])) [1 .. 5])"
proof -
  let ?item = "sample_item ''INNOV_001'' ''innovativeness'' 1.4 [- 1.2, - 0.3, 0.4, 1.3]"
  have wf: "well_formed_item ?item" by (simp add: well_formed_item_def sample_item_def)
  have bs: "difficulty_thresholds ?item = [- 1.2, - 0.3, 0.4, 1.3]" by (simp add: sample_item_def)
  have a: "discrimination ?item = 1.4" by (simp add: sample_item_def)
  have mid: "cat_grm_probability 0 ?item 2 = 0.001" "cat_grm_probability 0 ?item 3 = 0.001"
    "cat_grm_probability 0 ?item 4 = 0.001"
    using cat_grm_probability_middle[OF wf] by simp_all
  have l1: "7 / 10 \<le> 1 / (1 + exp (- (168 / 100 :: real)))" by (rule logistic_ge) simp
  have l5: "7 / 10 \<le> 1 / (1 + exp (- (182 / 100 :: real)))" by (rule logistic_ge) simp
  have s1: "safe_logistic (discrimination ?item * (0 - - 1.2)) = 1 / (1 + exp (- (168 / 100 :: real)))"
    by (simp add: sample_item_def safe_logistic_def)
  have s5: "1 - safe_logistic (discrimination ?item * (0 - 1.3)) = 1 / (1 + exp (- (182 / 100 :: real)))"
    using logistic_neg[of "182 / 100"] by (simp add: sample_item_def safe_logistic_def)
  have "safe_logistic (discrimination ?item * (0 - - 1.2)) - 0 \<le> cat_grm_probability 0 ?item 1"
    unfolding cat_grm_probability_four(1)[OF bs] by (rule max.cobounded1)
  then have p1: "7 / 10 \<le> cat_grm_probability 0 ?item 1"
    using l1 s1 by linarith
  have "1 - safe_logistic (discrimination ?item * (0 - 1.3)) \<le> cat_grm_probability 0 ?item 5"
    unfolding cat_grm_probability_four(5)[OF bs] by (rule max.cobounded1)
  then have p5: "7 / 10 \<le> cat_grm_probability 0 ?item 5"
    using l5 s5 by linarith
  have upto: "[1 .. 5] = [1, 2, 3, 4, 5 :: int]" by (simp add: upto_rec1)
  have total: "sum_list (map (cat_grm_probability 0 ?item) [1 .. 5]) =
      cat_grm_probability 0 ?item 1 + 0.001 + 0.001 + 0.001 + cat_grm_probability 0 ?item 5"
    by (simp only: upto list.map sum_list.Cons sum_list.Nil mid)
  have "1.4 < sum_list (map (cat_grm_probability 0 ?item) [1 .. 5])"
    unfolding total using p1 p5 by simp
  then show ?thesis using wf mid by simp
qed

section \<open>Batch estimation and the incremental update\<close>

text \<open>
  Claim C3 as stated fails: after the single response 5 to the first sample item the session
  holds the float 0.2 for innovativeness, while the grid search returns 3, the last candidate,
  because the likelihood of that response increases with theta.
\<close>

theorem incremental_differs_from_batch:
  "incremental_theta [(sample_item ''INNOV_001'' ''innovativeness'' 1.4 [- 1.2, - 0.3, 0.4, 1.3], 5)] ''innovativeness'' = Some (3602879701896397 / 2 ^ 54)
   \<and> fst (estimate_theta [5] [sample_item ''INNOV_001'' ''innovativeness'' 1.4 [- 1.2, - 0.3, 0.4, 1.3]]) = 3"
  using incremental_single_five single_five_estimate by (rule conjI)

text \<open>
  Claim C3, amended. The incremental update is a fixed step and not a likelihood maximisation.
  For a current estimate in \<open>[-3, 3]\<close> \<open>update_theta\<close> returns, up to \<open>2^-51\<close>,
  \<open>min 3 (theta + 0.2)\<close> for a response of 4 or more and \<open>max (-3) (theta - 0.2)\<close> for a
  response of 2 or less, and it returns a float estimate unchanged for the response 3; the new
  estimate does not depend on the item. \<open>process_response\<close> stores it as the estimate of the
  item's dimension and leaves the other dimensions as they are. Every estimate a session holds
  after a run lies in \<open>[-3, 3]\<close>, and before any response it is 0; the batch estimate lies
  in \<open>[-3, 3]\<close> too and is 0 for no responses. The two differ otherwise: for the single
  response 5 to the first sample item the batch estimate is above 2.9.
\<close>

theorem incremental_and_batch_amended:
  "(- 3 \<le> cur \<and> cur \<le> 3 \<longrightarrow>
      (4 \<le> response \<longrightarrow>
         \<bar>fst (update_theta cur item response) - min 3 (cur + 0.2)\<bar> \<le> 1 / 2 ^ 51)
      \<and> (response \<le> 2 \<longrightarrow>
         \<bar>fst (update_theta cur item response) - max (- 3) (cur - 0.2)\<bar> \<le> 1 / 2 ^ 51)
      \<and> (response = 3 \<and> binary64 cur = cur \<longrightarrow> fst (update_theta cur item response) = cur))
   \<and> fst (update_theta cur item response) = fst (update_theta cur item' response)
   \<and> (theta_estimates s (dimension item) = Some cur \<longrightarrow>
        (\<exists>s'. process_response item response s = Inr s'
           \<and> theta_estimates s' =
               (theta_estimates s)(dimension item \<mapsto> fst (update_theta cur item response))))
   \<and> (incremental_theta answered d = Some t \<longrightarrow> - 3 \<le> t \<and> t \<le> 3)
   \<and> (incremental_theta [] d = Some t \<longrightarrow> t = 0)
   \<and> fst (estimate_theta [] []) = 0
   \<and> - 3 \<le> fst (estimate_theta responses items) \<and> fst (estimate_theta responses items) \<le> 3
   \<and> 2.9 < fst (estimate_theta [5] [sample_item ''INNOV_001'' ''innovativeness'' 1.4 [- 1.2, - 0.3, 0.4, 1.3]])"
proof -
  have step: "- 3 \<le> cur \<and> cur \<le> 3 \<longrightarrow>
      (4 \<le> response \<longrightarrow>
         \<bar>fst (update_theta cur item response) - min 3 (cur + 0.2)\<bar> \<le> 1 / 2 ^ 51)
      \<and> (response \<le> 2 \<longrightarrow>
         \<bar>fst (update_theta cur item response) - max (- 3) (cur - 0.2)\<bar> \<le> 1 / 2 ^ 51)
      \<and> (response = 3 \<and> binary64 cur = cur \<longrightarrow> fst (update_theta cur item response) = cur)"
    using update_theta_up[of cur response item] update_theta_down[of cur response item]
      update_theta_neutral[of cur item]
    by blast
  have free: "fst (update_theta cur item response) = fst (update_theta cur item' response)"
    by (rule update_theta_item_free)
  have stored: "theta_estimates s (dimension item) = Some cur \<longrightarrow>
        (\<exists>s'. process_response item response s = Inr s'
           \<and> theta_estimates s' =
               (theta_estimates s)(dimension item \<mapsto> fst (update_theta cur item response)))"
    using process_response_estimate[of s item cur response] by blast
  have range: "incremental_theta answered d = Some t \<longrightarrow> - 3 \<le> t \<and> t \<le> 3"
    using incremental_theta_range[of answered d t] by blast
  have start: "incremental_theta [] d = Some t \<longrightarrow> t = 0"
    by (auto simp add: incremental_theta_def AssessmentSession_init_def split: if_splits)
  have empty: "fst (estimate_theta [] []) = 0" by (simp add: estimate_theta_def)
  have batch: "- 3 \<le> fst (estimate_theta responses items) \<and> fst (estimate_theta responses items) \<le> 3"
    by (rule estimate_theta_range)
  have far: "2.9 < fst (estimate_theta [5] [sample_item ''INNOV_001'' ''innovativeness'' 1.4 [- 1.2, - 0.3, 0.4, 1.3]])"
    unfolding single_five_estimate by simp
  show ?thesis using step free stored range start empty batch far by (intro conjI) blast+
qed

theorem incremental_and_batch_amended_witness:
  "- 3 \<le> (0::real) \<and> (0::real) \<le> 3 \<and> binary64 0 = 0
   \<and> \<bar>fst (update_theta 0 (sample_item ''INNOV_001'' ''innovativeness'' 1.4 [- 1.2, - 0.3, 0.4, 1.3]) 5) - min 3 (0 + 0.2)\<bar> \<le> 1 / 2 ^ 51
   \<and> \<bar>fst (update_theta 0 (sample_item ''INNOV_001'' ''innovativeness'' 1.4 [- 1.2, - 0.3, 0.4, 1.3]) 1) - max (- 3) (0 - 0.2)\<bar> \<le> 1 / 2 ^ 51
   \<and> fst (update_theta 0 (sample_item ''INNOV_001'' ''innovativeness'' 1.4 [- 1.2, - 0.3, 0.4, 1.3]) 3) = 0
   \<and> fst (update_theta 0 (sample_item ''INNOV_001'' ''innovativeness'' 1.4 [- 1.2, - 0.3, 0.4, 1.3]) 5) = fst (update_theta 0 (sample_item ''RISK_001'' ''risk_taking'' 1.3 [- 1.0, - 0.2, 0.6, 1.4]) 5)
   \<and> theta_estimates AssessmentSession_init (dimension (sample_item ''INNOV_001'' ''innovativeness'' 1.4 [- 1.2, - 0.3, 0.4, 1.3])) = Some 0
   \<and> (\<exists>s'. process_response (sample_item ''INNOV_001'' ''innovativeness'' 1.4 [- 1.2, - 0.3, 0.4, 1.3]) 5 AssessmentSession_init = Inr s'
         \<and> theta_estimates s' =
             (theta_estimates AssessmentSession_init)(dimension (sample_item ''INNOV_001'' ''innovativeness'' 1.4 [- 1.2, - 0.3, 0.4, 1.3]) \<mapsto>
                fst (update_theta 0 (sample_item ''INNOV_001'' ''innovativeness'' 1.4 [- 1.2, - 0.3, 0.4, 1.3]) 5)))
   \<and> incremental_theta [(sample_item ''INNOV_001'' ''innovativeness'' 1.4 [- 1.2, - 0.3, 0.4, 1.3], 5)] ''innovativeness'' = Some (3602879701896397 / 2 ^ 54)
   \<and> - 3 \<le> (3602879701896397 / 2 ^ 54 :: real) \<and> (3602879701896397 / 2 ^ 54 :: real) \<le> 3
   \<and> incremental_theta [] ''innovativeness'' = Some 0"
proof -
  have z: "- 3 \<le> (0::real) \<and> (0::real) \<le> 3" by simp
  have f: "binary64 0 = 0" by (simp add: binary64_def)
  have i5: "(4::int) \<le> 5" and i1: "(1::int) \<le> 2" by simp_all
  have held: "theta_estimates AssessmentSession_init (dimension (sample_item ''INNOV_001'' ''innovativeness'' 1.4 [- 1.2, - 0.3, 0.4, 1.3])) = Some 0"
    by (simp add: AssessmentSession_init_def sample_item_def)
  have start: "incremental_theta [] ''innovativeness'' = Some 0"
    by (simp add: incremental_theta_def AssessmentSession_init_def)
  note up = incremental_and_batch_amended [of 0 5 "sample_item ''INNOV_001'' ''innovativeness'' 1.4 [- 1.2, - 0.3, 0.4, 1.3]" "sample_item ''RISK_001'' ''risk_taking'' 1.3 [- 1.0, - 0.2, 0.6, 1.4]" AssessmentSession_init
      "[(sample_item ''INNOV_001'' ''innovativeness'' 1.4 [- 1.2, - 0.3, 0.4, 1.3], 5)]" "''innovativeness''" "3602879701896397 / 2 ^ 54"]
  note down = incremental_and_batch_amended [of 0 1 "sample_item ''INNOV_001'' ''innovativeness'' 1.4 [- 1.2, - 0.3, 0.4, 1.3]"]
  note neutral = incremental_and_batch_amended [of 0 3 "sample_item ''INNOV_001'' ''innovativeness'' 1.4 [- 1.2, - 0.3, 0.4, 1.3]"]
  have a: "\<bar>fst (update_theta 0 (sample_item ''INNOV_001'' ''innovativeness'' 1.4 [- 1.2, - 0.3, 0.4, 1.3]) 5) - min 3 (0 + 0.2)\<bar> \<le> 1 / 2 ^ 51"
    using up z i5 by blast
  have b: "\<bar>fst (update_theta 0 (sample_item ''INNOV_001'' ''innovativeness'' 1.4 [- 1.2, - 0.3, 0.4, 1.3]) 1) - max (- 3) (0 - 0.2)\<bar> \<le> 1 / 2 ^ 51"
    using down z i1 by blast
  have c: "fst (update_theta 0 (sample_item ''INNOV_001'' ''innovativeness'' 1.4 [- 1.2, - 0.3, 0.4, 1.3]) 3) = 0"
    using neutral z f by blast
  have d: "fst (update_theta 0 (sample_item ''INNOV_001'' ''innovativeness'' 1.4 [- 1.2, - 0.3, 0.4, 1.3]) 5) = fst (update_theta 0 (sample_item ''RISK_001'' ''risk_taking'' 1.3 [- 1.0, - 0.2, 0.6, 1.4]) 5)"
    using up by blast
  have e: "\<exists>s'. process_response (sample_item ''INNOV_001'' ''innovativeness'' 1.4 [- 1.2, - 0.3, 0.4, 1.3]) 5 AssessmentSession_init = Inr s'
         \<and> theta_estimates s' =
             (theta_estimates AssessmentSession_init)(dimension (sample_item ''INNOV_001'' ''innovativeness'' 1.4 [- 1.2, - 0.3, 0.4, 1.3]) \<mapsto>
                fst (update_theta 0 (sample_item ''INNOV_001'' ''innovativeness'' 1.4 [- 1.2, - 0.3, 0.4, 1.3]) 5))"
    using up held by blast
  have g: "- 3 \<le> (3602879701896397 / 2 ^ 54 :: real) \<and> (3602879701896397 / 2 ^ 54 :: real) \<le> 3"
    using up incremental_single_five by blast
  show ?thesis using z f a b c d held e incremental_single_five g start by (intro conjI) blast+
qed

text \<open>
  Claim C4. The grid search should return the first candidate of maximal accumulated
  log-likelihood. The loop starts from the likelihood -999999 instead of from the first
  candidate: for at most 99999 responses every candidate exceeds that value and the loop does
  return the first maximum (lemma \<open>estimate_theta_first_maximum\<close>), but for a million
  responses of category 2 to a steep item, followed by one response of category 5, no candidate
  exceeds it, and the function returns its initial theta 0 although the candidate 3 has a
  larger likelihood.
\<close>

theorem estimate_theta_sentinel_blocks_search:
  "well_formed_item (sample_item ''STEEP_001'' ''innovativeness'' 100000 [0.04, 0.06, 1, 2.95])
   \<and> 3 \<in> set theta_grid
   \<and> log_likelihood (replicate 1000000 2 @ [5])
       (replicate 1000000 (sample_item ''STEEP_001'' ''innovativeness'' 100000 [0.04, 0.06, 1, 2.95])
          @ [sample_item ''STEEP_001'' ''innovativeness'' 100000 [0.04, 0.06, 1, 2.95]]) 0
     < log_likelihood (replicate 1000000 2 @ [5])
       (replicate 1000000 (sample_item ''STEEP_001'' ''innovativeness'' 100000 [0.04, 0.06, 1, 2.95])
          @ [sample_item ''STEEP_001'' ''innovativeness'' 100000 [0.04, 0.06, 1, 2.95]]) 3
   \<and> fst (estimate_theta (replicate 1000000 2 @ [5])
       (replicate 1000000 (sample_item ''STEEP_001'' ''innovativeness'' 100000 [0.04, 0.06, 1, 2.95])
          @ [sample_item ''STEEP_001'' ''innovativeness'' 100000 [0.04, 0.06, 1, 2.95]])) = 0"
proof -
  let ?X = "sample_item ''STEEP_001'' ''innovativeness'' 100000 [0.04, 0.06, 1, 2.95]"
  let ?rs = "replicate 1000000 (2::int) @ [5]"
  let ?is = "replicate 1000000 ?X @ [?X]"
  let ?ll = "log_likelihood ?rs ?is"
  have ll: "?ll t = log_likelihood_step t (5, ?X) (real (1000000::nat) * ln 0.001)"
    if "t \<le> 0 \<or> 0.1 \<le> t" for t
    using that by (rule steep_log_likelihood)
  have ll3: "?ll 3 = real (1000000::nat) * ln 0.001"
    by (subst ll) (simp_all add: log_likelihood_step_def sample_item_def grm_probability_four
        safe_logistic_def Let_def)
  have ll0: "?ll 0 = real (1000000::nat) * ln 0.001 + ln 0.001"
    by (subst ll) (simp_all add: log_likelihood_step_def sample_item_def grm_probability_four
        safe_logistic_def Let_def)
  have less: "?ll 0 < ?ll 3" unfolding ll0 ll3 using ln_floor_bounds by linarith
  have low: "?ll t \<le> - 999999" if "t \<in> set theta_grid" for t
  proof -
    have "t \<le> 0 \<or> 0.1 \<le> t" using theta_grid_range[OF that] by simp
    then have "?ll t = log_likelihood_step t (5, ?X) (real (1000000::nat) * ln 0.001)" by (rule ll)
    also have "\<dots> \<le> real (1000000::nat) * ln 0.001" by (rule log_likelihood_step_upper)
    also have "\<dots> \<le> - 999999" using ln_floor_bounds by simp
    finally show ?thesis .
  qed
  then have "grid_search ?ll theta_grid (0, - 999999) = (0, - 999999)"
    by (intro grid_search_unchanged) blast
  moreover have "?rs \<noteq> []" "?is \<noteq> []" by simp_all
  ultimately have "fst (estimate_theta ?rs ?is) = 0"
    by (simp only: estimate_theta_def Let_def if_False simp_thms fst_conv)
  moreover have "well_formed_item ?X" by (simp add: well_formed_item_def sample_item_def)
  ultimately show ?thesis using less three_in_theta_grid by (simp only: simp_thms)
qed

section \<open>Flooring of probabilities and information\<close>




text \<open>
  Claim C6 as stated fails for \<open>GruenderAIEngine.grm_probability\<close>: categories 1 and 5 are
  returned without a floor, and at theta 1000 the logistic function of category 1 is cut to 0.
\<close>

theorem grm_probability_zero:
  "grm_probability 1000 1.4 [- 1.2, - 0.3, 0.4, 1.3] 1 = 0"
  by (simp add: grm_probability_def grm_probability_try_def py_index_def safe_logistic_def Let_def)

text \<open>
  Claim C6, amended. \<open>IRTCATEngine.grm_probability\<close> is at least 0.001 for every input, and
  so is \<open>GruenderAIEngine.grm_probability\<close> for every category other than 1 and 5. For an
  item with a threshold, category 1 is \<open>safe_logistic\<close> at minus the exponent of the first
  threshold and category 5 is \<open>safe_logistic\<close> at the exponent of the last threshold, without
  a floor. \<open>safe_logistic\<close> lies between 0 and 1 and is 0 exactly when its argument is below
  -500. In the log-likelihood loop of \<open>estimate_theta\<close> each response lowers the accumulated
  value by at most 10 and never raises it.
\<close>

theorem category_probability_floor_amended:
  "0.001 \<le> cat_grm_probability theta item response
   \<and> (category \<noteq> 1 \<and> category \<noteq> 5 \<longrightarrow> 0.001 \<le> grm_probability theta a bs category)
   \<and> (bs \<noteq> [] \<longrightarrow>
        grm_probability theta a bs 1 = safe_logistic (- (a * (theta - hd bs)))
        \<and> grm_probability theta a bs 5 = safe_logistic (a * (theta - last bs)))
   \<and> 0 \<le> safe_logistic x \<and> safe_logistic x \<le> 1 \<and> (safe_logistic x = 0) = (x < - 500)
   \<and> acc - 10 \<le> log_likelihood_step theta pair acc
   \<and> log_likelihood_step theta pair acc \<le> acc"
  using cat_grm_probability_floor [of theta item response]
    grm_probability_middle_floor [of category theta a bs]
    grm_probability_ends [of bs theta a]
    safe_logistic_nonneg [of x] safe_logistic_le_one [of x] safe_logistic_zero_iff [of x]
    log_likelihood_step_above [of acc theta pair] log_likelihood_step_upper [of theta pair acc]
  by blast

theorem category_probability_floor_amended_witness:
  "(3::int) \<noteq> 1 \<and> (3::int) \<noteq> 5
   \<and> 0.001 \<le> grm_probability 0 1.4 [- 1.2, - 0.3, 0.4, 1.3] 3
   \<and> [- 1.2, - 0.3, 0.4, 1.3] \<noteq> ([] :: real list)
   \<and> grm_probability 1000 1.4 [- 1.2, - 0.3, 0.4, 1.3] 1 = safe_logistic (- (1.4 * (1000 - - 1.2)))
   \<and> grm_probability (- 1000) 1.4 [- 1.2, - 0.3, 0.4, 1.3] 5 = safe_logistic (1.4 * (- 1000 - 1.3))
   \<and> safe_logistic (- (1.4 * (1000 - - 1.2))) = 0
   \<and> safe_logistic (1.4 * (- 1000 - 1.3)) = 0"
proof -
  have ne: "[- 1.2, - 0.3, 0.4, 1.3] \<noteq> ([] :: real list)" by simp
  have m: "(3::int) \<noteq> 1 \<and> (3::int) \<noteq> 5" by simp
  have l: "last [- 1.2, - 0.3, 0.4, 1.3] = (1.3::real)" by simp
  note mid = category_probability_floor_amended [where theta = 0 and a = "1.4"
      and bs = "[- 1.2, - 0.3, 0.4, 1.3]" and category = 3]
  note one = category_probability_floor_amended [where theta = 1000 and a = "1.4"
      and bs = "[- 1.2, - 0.3, 0.4, 1.3]" and x = "- (1.4 * (1000 - - 1.2))"]
  note five = category_probability_floor_amended [where theta = "- 1000" and a = "1.4"
      and bs = "[- 1.2, - 0.3, 0.4, 1.3]" and x = "1.4 * (- 1000 - 1.3)"]
  have a: "0.001 \<le> grm_probability 0 1.4 [- 1.2, - 0.3, 0.4, 1.3] 3" using mid m by blast
  have b: "grm_probability 1000 1.4 [- 1.2, - 0.3, 0.4, 1.3] 1 = safe_logistic (- (1.4 * (1000 - - 1.2)))"
    using one [unfolded list.sel] ne by blast
  have c: "grm_probability (- 1000) 1.4 [- 1.2, - 0.3, 0.4, 1.3] 5 = safe_logistic (1.4 * (- 1000 - 1.3))"
    using five [unfolded l] ne by blast
  have "- (1.4 * (1000 - - 1.2)) < (- 500 :: real)" by simp
  then have d: "safe_logistic (- (1.4 * (1000 - - 1.2))) = 0" using one by blast
  have "1.4 * (- 1000 - 1.3) < (- 500 :: real)" by simp
  then have e: "safe_logistic (1.4 * (- 1000 - 1.3)) = 0" using five by blast
  show ?thesis using m a ne b c d e by (intro conjI) blast+
qed

section \<open>Invalid categories and ill-formed items\<close>

text \<open>
  Claim C7 as stated fails in both engines: category 6 is answered with the probability 0.001,
  by the range test of \<open>IRTCATEngine.grm_probability\<close> and by the \<open>except\<close> clause of
  \<open>GruenderAIEngine.grm_probability\<close>.
\<close>

theorem invalid_category_not_rejected:
  "cat_grm_probability 0 (sample_item ''INNOV_001'' ''innovativeness'' 1.4 [- 1.2, - 0.3, 0.4, 1.3]) 6 = 0.001
   \<and> grm_probability_try 0 1.4 [- 1.2, - 0.3, 0.4, 1.3] 6 = Inl IndexError
   \<and> grm_probability 0 1.4 [- 1.2, - 0.3, 0.4, 1.3] 6 = 0.001"
  by (simp add: cat_grm_probability_def cat_cumulative_probs_def sample_item_def
      grm_probability_def grm_probability_try_def py_index_def Let_def)

text \<open>
  Claim C7, amended. For an item with four thresholds, \<open>IRTCATEngine.grm_probability\<close>
  returns 0.001 for every response below 1 or above 5, and
  \<open>GruenderAIEngine.grm_probability\<close> returns 0.001 for every category above 5 or below -2.
\<close>

theorem invalid_category_amended:
  "(length (difficulty_thresholds item) = 4 \<and> (response < 1 \<or> 5 < response)
      \<longrightarrow> cat_grm_probability theta item response = 0.001)
   \<and> (length bs = 4 \<and> (category < - 2 \<or> 5 < category)
      \<longrightarrow> grm_probability theta a bs category = 0.001)"
  by (auto simp add: cat_grm_probability_def cat_cumulative_probs_def grm_probability_def
      grm_probability_try_def py_index_def Let_def)

theorem invalid_category_amended_witness:
  "length (difficulty_thresholds (sample_item ''INNOV_001'' ''innovativeness'' 1.4 [- 1.2, - 0.3, 0.4, 1.3])) = 4
   \<and> ((0::int) < 1 \<or> (5::int) < 0)
   \<and> cat_grm_probability 0.5 (sample_item ''INNOV_001'' ''innovativeness'' 1.4 [- 1.2, - 0.3, 0.4, 1.3]) 0 = 0.001
   \<and> length [- 1.2, - 0.3, 0.4, 1.3 :: real] = 4
   \<and> ((7::int) < - 2 \<or> (5::int) < 7)
   \<and> grm_probability 0.5 1.4 [- 1.2, - 0.3, 0.4, 1.3] 7 = 0.001"
  using invalid_category_amended [of "sample_item ''INNOV_001'' ''innovativeness'' 1.4 [- 1.2, - 0.3, 0.4, 1.3]" 0 "0.5"
      "[- 1.2, - 0.3, 0.4, 1.3]" 7 "1.4"]
  by (simp add: sample_item_def)

text \<open>
  Claim C8 as stated fails: the constructor of \<open>PersonalityItem\<close> accepts an item with
  discrimination -1 and decreasing thresholds.
\<close>

theorem ill_formed_item_accepted:
  "PersonalityItem_init ''BAD_001'' ''innovativeness'' [] [] (- 1) [1, 0]
     = Inr \<lparr>item_id = ''BAD_001'', dimension = ''innovativeness'', text_de = [], text_en = [],
            discrimination = - 1, difficulty_thresholds = [1, 0]\<rparr>
   \<and> \<not> well_formed_item
         \<lparr>item_id = ''BAD_001'', dimension = ''innovativeness'', text_de = [], text_en = [],
          discrimination = - 1, difficulty_thresholds = [1, 0]\<rparr>"
  by (simp add: PersonalityItem_init_def well_formed_item_def)

text \<open>
  Claim C8, amended. Items are not validated: constructing a \<open>PersonalityItem\<close> succeeds for
  every choice of fields. The ten items that \<open>create_sample_item_bank\<close> builds are all
  well-formed.
\<close>

theorem item_bank_amended:
  "(\<exists>item. PersonalityItem_init iid dimn de en a bs = Inr item)
   \<and> list_all well_formed_item create_sample_item_bank"
  by (simp add: PersonalityItem_init_def create_sample_item_bank_def sample_item_def
      well_formed_item_def)

section \<open>Item selection without repeats\<close>

text \<open>
  Claim C9. In any run of successive calls of \<open>select_next_item\<close>, where the \<open>item_id\<close> of
  each returned item joins the used items before the next call, the returned ids are pairwise
  different and none of them was used before the run; and when no item of the pool is unused,
  the selector returns \<open>None\<close>.
\<close>

theorem select_next_item_no_repeat:
  "distinct (map item_id (administer thetas available used))
   \<and> (\<forall>x\<in>set (administer thetas available used). item_id x \<notin> set used)
   \<and> (filter (\<lambda>item. item_id item \<notin> set used') available' = []
        \<longrightarrow> select_next_item theta available' used' = None)"
  using administer_distinct [of thetas available used] administer_fresh [of _ thetas available used]
    select_next_item_None [of used' available' theta]
  by blast

theorem select_next_item_no_repeat_witness:
  "administer [0] [sample_item ''INNOV_001'' ''innovativeness'' 1.4 [- 1.2, - 0.3, 0.4, 1.3]] [] = [sample_item ''INNOV_001'' ''innovativeness'' 1.4 [- 1.2, - 0.3, 0.4, 1.3]]
   \<and> distinct (map item_id (administer [0] [sample_item ''INNOV_001'' ''innovativeness'' 1.4 [- 1.2, - 0.3, 0.4, 1.3]] []))
   \<and> filter (\<lambda>item. item_id item \<notin> set [''INNOV_001''])
        [sample_item ''INNOV_001'' ''innovativeness'' 1.4 [- 1.2, - 0.3, 0.4, 1.3]] = []
   \<and> select_next_item 0 [sample_item ''INNOV_001'' ''innovativeness'' 1.4 [- 1.2, - 0.3, 0.4, 1.3]] [''INNOV_001''] = None"
proof -
  have "- 1 < (0.001::real)" by simp
  then have "- 1 < fisher_information 0 1.4 [- 1.2, - 0.3, 0.4, 1.3]"
    using fisher_information_floor [of 0 "1.4" "[- 1.2, - 0.3, 0.4, 1.3]"] by (rule less_le_trans)
  then have run: "administer [0] [sample_item ''INNOV_001'' ''innovativeness'' 1.4 [- 1.2, - 0.3, 0.4, 1.3]] [] = [sample_item ''INNOV_001'' ''innovativeness'' 1.4 [- 1.2, - 0.3, 0.4, 1.3]]"
    by (simp add: select_next_item_def sample_item_def Let_def)
  have pool: "filter (\<lambda>item. item_id item \<notin> set [''INNOV_001''])
        [sample_item ''INNOV_001'' ''innovativeness'' 1.4 [- 1.2, - 0.3, 0.4, 1.3]] = []"
    by (simp add: sample_item_def)
  show ?thesis
    using select_next_item_no_repeat [of "[0]" "[sample_item ''INNOV_001'' ''innovativeness'' 1.4 [- 1.2, - 0.3, 0.4, 1.3]]" "[]"
        "[''INNOV_001'']" "[sample_item ''INNOV_001'' ''innovativeness'' 1.4 [- 1.2, - 0.3, 0.4, 1.3]]" 0] run pool
    by simp
qed

section \<open>The size of one incremental step\<close>

text \<open>
  Claim C10 as stated fails: the sum of the floats 0.4 and 0.2 is rounded up, so from the current
  theta 0.4 and the response 4 \<open>update_theta\<close> returns 0.6000000000000001, more than 0.2 away.
\<close>

theorem update_theta_step_exceeds:
  "binary64 0.4 = 3602879701896397 / 2 ^ 53
   \<and> - 3 \<le> binary64 0.4 \<and> binary64 0.4 \<le> 3
   \<and> fst (update_theta (binary64 0.4) (sample_item ''INNOV_001'' ''innovativeness'' 1.4 [- 1.2, - 0.3, 0.4, 1.3]) 4) = 5404319552844596 / 2 ^ 53
   \<and> 0.2 < \<bar>fst (update_theta (binary64 0.4) (sample_item ''INNOV_001'' ''innovativeness'' 1.4 [- 1.2, - 0.3, 0.4, 1.3]) 4) - binary64 0.4\<bar>"
proof -
  have new: "fst (update_theta (3602879701896397 / 2 ^ 53) item 4) = 5404319552844596 / 2 ^ 53"
    for item
    unfolding update_theta_def Let_def float_add_def binary64_one_fifth binary64_three_fifths_sum
    by simp
  show ?thesis by (simp only: binary64_two_fifths new) simp
qed

text \<open>
  Claim C10, amended. For every float current theta in \<open>[-3, 3]\<close>, every item and every
  integer response, the theta returned by \<open>update_theta\<close> lies in \<open>[-3, 3]\<close> and is at
  most \<open>0.2 + 2^-51\<close> away from the current theta.
\<close>

theorem update_theta_bounded_step:
  assumes "binary64 current_theta = current_theta"
    and "- 3 \<le> current_theta" and "current_theta \<le> 3"
  shows "- 3 \<le> fst (update_theta current_theta item response)
       \<and> fst (update_theta current_theta item response) \<le> 3
       \<and> \<bar>fst (update_theta current_theta item response) - current_theta\<bar> \<le> 0.2 + 1 / 2 ^ 51"
proof -
  consider "4 \<le> response" | "response \<le> 2" | "response = 3" by linarith
  then have "\<bar>fst (update_theta current_theta item response) - current_theta\<bar> \<le> 0.2 + 1 / 2 ^ 51"
  proof cases
    case 1
    have "\<bar>min 3 (current_theta + 0.2) - current_theta\<bar> \<le> 0.2"
      using assms(3) by (simp add: min_def)
    then show ?thesis using update_theta_up[OF assms(2,3) 1, of item] by linarith
  next
    case 2
    have "\<bar>max (- 3) (current_theta - 0.2) - current_theta\<bar> \<le> 0.2"
      using assms(2) by (simp add: max_def)
    then show ?thesis using update_theta_down[OF assms(2,3) 2, of item] by linarith
  next
    case 3
    then show ?thesis using update_theta_neutral[OF assms, of item] by simp
  qed
  then show ?thesis using update_theta_range[of current_theta item response] by simp
qed

theorem update_theta_bounded_step_witness:
  "binary64 (3602879701896397 / 2 ^ 53) = 3602879701896397 / 2 ^ 53
   \<and> - 3 \<le> (3602879701896397 / 2 ^ 53 :: real) \<and> (3602879701896397 / 2 ^ 53 :: real) \<le> 3
   \<and> - 3 \<le> fst (update_theta (3602879701896397 / 2 ^ 53) (sample_item ''INNOV_001'' ''innovativeness'' 1.4 [- 1.2, - 0.3, 0.4, 1.3]) 4)
   \<and> fst (update_theta (3602879701896397 / 2 ^ 53) (sample_item ''INNOV_001'' ''innovativeness'' 1.4 [- 1.2, - 0.3, 0.4, 1.3]) 4) \<le> 3
   \<and> \<bar>fst (update_theta (3602879701896397 / 2 ^ 53) (sample_item ''INNOV_001'' ''innovativeness'' 1.4 [- 1.2, - 0.3, 0.4, 1.3]) 4) - 3602879701896397 / 2 ^ 53\<bar>
       \<le> 0.2 + 1 / 2 ^ 51"
proof -
  have f: "binary64 (3602879701896397 / 2 ^ 53) = 3602879701896397 / 2 ^ 53"
    by (rule binary64_two_fifths_float)
  have r: "- 3 \<le> (3602879701896397 / 2 ^ 53 :: real)" "(3602879701896397 / 2 ^ 53 :: real) \<le> 3"
    by simp_all
  show ?thesis using update_theta_bounded_step [OF f r, of "sample_item ''INNOV_001'' ''innovativeness'' 1.4 [- 1.2, - 0.3, 0.4, 1.3]" 4] f r by (intro conjI) blast+
qed

end
